theory Spec2Isabelle
  imports Main "HOL-Library.Log_Nat" "HOL-Library.Char_ord" "HOL-Library.List_Lexorder"
begin

section \<open>Python values\<close>

subsection \<open>Floats\<close>

text \<open>
  A Python float is an IEEE-754 binary64 number. A finite one is modelled by the rational
  it denotes. \<open>dbl\<close> rounds a rational to the nearest double, ties to even (53 significant
  bits, gradual underflow below \<open>2^-1022\<close>); overflow to infinity and NaN are outside the
  model. A float literal \<open>0.3\<close> of the source is \<open>dbl (3/10)\<close>, and every float operation
  rounds its exact result.
\<close>

type_synonym pyfloat = rat

definition pow2 :: "int \<Rightarrow> rat" where
  "pow2 k = (if 0 \<le> k then 2 ^ nat k else 1 / 2 ^ nat (- k))"

definition round_half_even :: "rat \<Rightarrow> int" where
  "round_half_even x =
     (let n = \<lfloor>x\<rfloor>; r = x - of_int n
      in if r < 1 / 2 then n else if 1 / 2 < r then n + 1 else if even n then n else n + 1)"

definition ilog2 :: "rat \<Rightarrow> int" where
  "ilog2 x = (case quotient_of x of (p, q) \<Rightarrow>
      let k = bitlen p - bitlen q in if pow2 k \<le> x then k else k - 1)"

definition dbl :: "rat \<Rightarrow> pyfloat" where
  "dbl x = (if x = 0 then 0
            else let e = max (ilog2 \<bar>x\<bar> - 52) (- 1074)
                 in of_int (round_half_even (x / pow2 e)) * pow2 e)"

definition fadd :: "pyfloat \<Rightarrow> pyfloat \<Rightarrow> pyfloat" where
  "fadd x y = dbl (x + y)"

subsection \<open>Dynamically typed values, dictionaries and exceptions\<close>

text \<open>
  The values that occur in feature dictionaries and prediction results. A \<open>Decimal\<close> is the
  rational it denotes. A \<open>dict\<close> is an association list in insertion order with distinct
  keys.
\<close>

datatype pyval =
    PyFloat pyfloat
  | PyInt int
  | PyStr string
  | PyDecimal rat
  | PyNone
  | PyDict "(string \<times> pyval) list"

type_synonym pydict = "(string \<times> pyval) list"

datatype exc =
    KeyError string
  | TypeError
  | ValueError
  | AttributeError
  | NotFittedError
  | IndexError
  | FileNotFoundError string
  | UnpicklingError string
  | LibraryError nat

definition try_bind :: "exc + 'a \<Rightarrow> ('a \<Rightarrow> exc + 'b) \<Rightarrow> exc + 'b" where
  "try_bind m f = (case m of Inl e \<Rightarrow> Inl e | Inr x \<Rightarrow> f x)"

text \<open>\<open>d[k]\<close> raises \<open>KeyError\<close> on a missing key; \<open>d.get(k, default)\<close> does not.\<close>

definition py_getitem :: "pydict \<Rightarrow> string \<Rightarrow> exc + pyval" where
  "py_getitem d k = (case map_of d k of None \<Rightarrow> Inl (KeyError k) | Some v \<Rightarrow> Inr v)"

definition py_get :: "pydict \<Rightarrow> string \<Rightarrow> pyval \<Rightarrow> pyval" where
  "py_get d k dflt = (case map_of d k of None \<Rightarrow> dflt | Some v \<Rightarrow> v)"

fun num_of :: "pyval \<Rightarrow> rat option" where
  "num_of (PyFloat x) = Some x"
| "num_of (PyInt i) = Some (of_int i)"
| "num_of (PyDecimal d) = Some d"
| "num_of (PyStr s) = None"
| "num_of PyNone = None"
| "num_of (PyDict d) = None"

text \<open>
  \<open>v < c\<close> and \<open>v > c\<close> against a numeric literal \<open>c\<close>: numbers compare by value, anything
  else raises \<open>TypeError\<close>.
\<close>

definition py_lt :: "pyval \<Rightarrow> rat \<Rightarrow> exc + bool" where
  "py_lt v c = (case num_of v of None \<Rightarrow> Inl TypeError | Some x \<Rightarrow> Inr (x < c))"

definition py_gt :: "pyval \<Rightarrow> rat \<Rightarrow> exc + bool" where
  "py_gt v c = (case num_of v of None \<Rightarrow> Inl TypeError | Some x \<Rightarrow> Inr (c < x))"

section \<open>Risk labels: \<open>BidPredictor._calculate_risk_scores\<close>\<close>

text \<open>
  A \<open>DataFrame\<close> built from a list of dictionaries that all have the same keys is the list
  of its rows; \<open>df.iterrows()\<close> enumerates them in order.
\<close>

type_synonym dataframe = "pydict list"

text \<open>The body of the loop for one row: \<open>risk\<close> starts at \<open>0.0\<close> and is updated in place.\<close>

definition risk_of_row :: "pydict \<Rightarrow> exc + pyfloat" where
  "risk_of_row row =
     (let risk = 0 in
      try_bind (py_getitem row ''bid_value'') (\<lambda>v1.
      try_bind (py_gt v1 1000000) (\<lambda>c1.
      let risk = (if c1 then fadd risk (dbl (3 / 10)) else risk) in
      try_bind (py_getitem row ''customer_relationship_score'') (\<lambda>v2.
      try_bind (py_lt v2 30) (\<lambda>c2.
      let risk = (if c2 then fadd risk (dbl (2 / 10)) else risk) in
      try_bind (py_getitem row ''complexity_score'') (\<lambda>v3.
      try_bind (py_gt v3 (dbl (7 / 10))) (\<lambda>c3.
      let risk = (if c3 then fadd risk (dbl (2 / 10)) else risk) in
      try_bind (py_getitem row ''days_until_due'') (\<lambda>v4.
      try_bind (py_lt v4 7) (\<lambda>c4.
      let risk = (if c4 then fadd risk (dbl (2 / 10)) else risk) in
      Inr (min (max risk 0) 1))))))))))"

fun risk_loop :: "pydict list \<Rightarrow> pyfloat list \<Rightarrow> exc + pyfloat list" where
  "risk_loop [] risks = Inr risks"
| "risk_loop (row # rows) risks =
     (case risk_of_row row of Inl e \<Rightarrow> Inl e | Inr risk \<Rightarrow> risk_loop rows (risks @ [risk]))"

definition calculate_risk_scores :: "dataframe \<Rightarrow> exc + pyfloat list" where
  "calculate_risk_scores df = risk_loop df []"

section \<open>The database: \<open>bids/models.py\<close>\<close>

text \<open>
  The columns of \<open>Customer\<close> and \<open>Bid\<close> that the predictor reads. A nullable column is an
  \<open>option\<close>; a \<open>DecimalField\<close> holds a rational. \<open>team_members\<close> is the list of user ids in
  the many-to-many relation, dates are day numbers. \<open>requirements\<close> is a \<open>JSONField\<close>: it
  holds any JSON value, an object by default.
\<close>

datatype json =
    JNull
  | JBool bool
  | JNumber rat
  | JString string
  | JArray "json list"
  | JObject "(string \<times> json) list"

record customer =
  customer_id :: nat
  customer_type :: string
  industry :: string
  annual_revenue :: "rat option"
  relationship_score :: int

record bid =
  bid_id :: string
  description :: string
  bid_due_date :: "int option"
  priority :: string
  complexity :: string
  business_unit :: string
  bid_level :: string
  bid_value :: "rat option"
  estimated_cost :: "rat option"
  profit_margin :: "rat option"
  bid_customer :: customer
  region :: string
  team_members :: "nat list"
  status :: string
  complexity_score :: "rat option"
  requirements :: json
  review_cycle :: int

record database =
  bids :: "bid list"
  today :: int

text \<open>The property \<open>Bid.days_until_due\<close>.\<close>

definition days_until_due :: "database \<Rightarrow> bid \<Rightarrow> int option" where
  "days_until_due db b =
     (case bid_due_date b of Some d \<Rightarrow> Some (d - today db) | None \<Rightarrow> None)"

text \<open>
  \<open>x or d\<close> for a nullable decimal or integer \<open>x\<close>: \<open>None\<close> and zero are falsy. For a string,
  the empty string is falsy.
\<close>

definition dec_or :: "rat option \<Rightarrow> rat \<Rightarrow> rat" where
  "dec_or x d = (case x of None \<Rightarrow> d | Some v \<Rightarrow> if v = 0 then d else v)"

definition int_or :: "int option \<Rightarrow> int \<Rightarrow> int" where
  "int_or x d = (case x of None \<Rightarrow> d | Some v \<Rightarrow> if v = 0 then d else v)"

definition str_or :: "string \<Rightarrow> string \<Rightarrow> string" where
  "str_or s d = (if s = [] then d else s)"

section \<open>Feature extraction: \<open>BidPredictor._extract_features\<close>\<close>

text \<open>
  \<open>len(bid.requirements) if bid.requirements else 0\<close>: \<open>None\<close>, \<open>False\<close>, zero and the empty
  string, list and object are falsy; \<open>len\<close> of \<open>True\<close> or of a number other than zero raises
  \<open>TypeError\<close>.
\<close>

fun requirements_count :: "json \<Rightarrow> exc + int" where
  "requirements_count JNull = Inr 0"
| "requirements_count (JBool t) = (if t then Inl TypeError else Inr 0)"
| "requirements_count (JNumber x) = (if x \<noteq> 0 then Inl TypeError else Inr 0)"
| "requirements_count (JString s) = Inr (int (length s))"
| "requirements_count (JArray xs) = Inr (int (length xs))"
| "requirements_count (JObject kvs) = Inr (int (length kvs))"

text \<open>\<open>Bid.objects.filter(customer=customer)\<close> and the two counts taken from it.\<close>

definition customer_bids :: "database \<Rightarrow> customer \<Rightarrow> bid list" where
  "customer_bids db c = filter (\<lambda>b. customer_id (bid_customer b) = customer_id c) (bids db)"

definition won_or_approved :: "bid \<Rightarrow> bool" where
  "won_or_approved b = (status b \<in> set [''won'', ''approved''])"

definition historical_win_rate :: "database \<Rightarrow> customer \<Rightarrow> pyfloat" where
  "historical_win_rate db c =
     (let total_bids = length (customer_bids db c)
      in if total_bids > 0
         then (let won_bids = length (filter won_or_approved (customer_bids db c))
               in dbl (of_nat won_bids / of_nat total_bids))
         else dbl (1 / 2))"

text \<open>
  \<open>aggregate(avg=Avg('bid_value'))['avg'] or 0\<close>: the mean of the non-null values, a
  \<open>Decimal\<close>, or the integer \<open>0\<close> when there is none or the mean is zero. The database
  computes the mean in decimal arithmetic; it is taken here as the exact mean.
\<close>

definition avg_bid_value :: "database \<Rightarrow> customer \<Rightarrow> pyval" where
  "avg_bid_value db c =
     (let vs = concat (map (\<lambda>b. case bid_value b of None \<Rightarrow> [] | Some v \<Rightarrow> [v])
                           (customer_bids db c))
      in if vs = [] \<or> sum_list vs = 0 then PyInt 0
         else PyDecimal (sum_list vs / of_nat (length vs)))"

text \<open>
  The dictionary of the twenty features. Its entries are evaluated in order; only the
  entry \<open>requirements_count\<close> can raise, and the ones before it have no effect, so the
  exception is taken first.
\<close>

definition extract_features :: "database \<Rightarrow> bid \<Rightarrow> exc + pydict" where
  "extract_features db b =
     (let customer = bid_customer b in
      try_bind (requirements_count (requirements b)) (\<lambda>requirements_count. Inr
      [(''bid_value'', PyFloat (dbl (dec_or (bid_value b) 0))),
       (''estimated_cost'', PyFloat (dbl (dec_or (estimated_cost b) 0))),
       (''profit_margin'', PyFloat (dbl (dec_or (profit_margin b) 0))),
       (''days_until_due'', PyInt (int_or (days_until_due db b) 0)),
       (''complexity_score'', PyFloat (dbl (dec_or (complexity_score b) (1 / 2)))),
       (''customer_relationship_score'', PyFloat (dbl (of_int (relationship_score customer)))),
       (''customer_annual_revenue'', PyFloat (dbl (dec_or (annual_revenue customer) 0))),
       (''customer_type'', PyStr (customer_type customer)),
       (''customer_industry'', PyStr (str_or (industry customer) ''unknown'')),
       (''historical_win_rate'', PyFloat (historical_win_rate db customer)),
       (''avg_bid_value'', avg_bid_value db customer),
       (''team_size'', PyInt (int (length (team_members b)) + 1)),
       (''review_cycle_count'', PyInt (review_cycle b)),
       (''description_length'', PyInt (int (length (description b)))),
       (''requirements_count'', PyInt requirements_count),
       (''business_unit'', PyStr (business_unit b)),
       (''bid_level'', PyStr (bid_level b)),
       (''priority'', PyStr (priority b)),
       (''complexity'', PyStr (complexity b)),
       (''region'', PyStr (region b))]))"

section \<open>Training data: \<open>BidPredictor.prepare_training_data\<close>\<close>

text \<open>\<open>d[k] = v\<close>: replaces the value of an existing key, appends a new key at the end.\<close>

fun py_setitem :: "pydict \<Rightarrow> string \<Rightarrow> pyval \<Rightarrow> pydict" where
  "py_setitem [] k v = [(k, v)]"
| "py_setitem (p # ps) k v = (if fst p = k then (k, v) # ps else p # py_setitem ps k v)"

definition eligible :: "bid \<Rightarrow> bool" where
  "eligible b = (status b \<in> set [''won'', ''lost'', ''approved'', ''rejected''])"

text \<open>The body of the loop: the features of one bid with its target and its id.\<close>

definition training_row :: "database \<Rightarrow> bid \<Rightarrow> exc + pydict" where
  "training_row db b =
     try_bind (extract_features db b) (\<lambda>features.
     let features = py_setitem features ''target''
                      (PyInt (if status b \<in> set [''won'', ''approved''] then 1 else 0));
         features = py_setitem features ''bid_id'' (PyStr (bid_id b))
     in Inr features)"

fun prepare_loop :: "database \<Rightarrow> bid list \<Rightarrow> pydict list \<Rightarrow> exc + pydict list" where
  "prepare_loop db [] data = Inr data"
| "prepare_loop db (b # bs) data =
     (case training_row db b of
        Inl e \<Rightarrow> Inl e
      | Inr features \<Rightarrow> prepare_loop db bs (data @ [features]))"

definition prepare_training_data :: "database \<Rightarrow> exc + dataframe" where
  "prepare_training_data db = prepare_loop db (filter eligible (bids db)) []"

section \<open>Tables\<close>

text \<open>
  The operations of \<open>pandas\<close> that the predictor uses, on a table given by its rows.
  \<open>df.drop(cols, axis=1)\<close> raises \<open>KeyError\<close> when a label is not a column. A column has
  dtype \<open>object\<close> when it holds a string or a \<open>Decimal\<close>, or nothing but \<open>None\<close>; a \<open>None\<close>
  among numbers is a NaN of a float column.
\<close>

definition df_columns :: "dataframe \<Rightarrow> string list" where
  "df_columns df = (case df of [] \<Rightarrow> [] | row # _ \<Rightarrow> map fst row)"

definition df_column :: "dataframe \<Rightarrow> string \<Rightarrow> pyval list" where
  "df_column df c = map (\<lambda>row. py_get row c PyNone) df"

definition df_set_column :: "dataframe \<Rightarrow> string \<Rightarrow> pyval list \<Rightarrow> dataframe" where
  "df_set_column df c vs = map (\<lambda>(row, v). py_setitem row c v) (zip df vs)"

definition df_drop :: "dataframe \<Rightarrow> string list \<Rightarrow> exc + dataframe" where
  "df_drop df cs =
     (case filter (\<lambda>c. c \<notin> set (df_columns df)) cs of
        [] \<Rightarrow> Inr (map (filter (\<lambda>(k, v). k \<notin> set cs)) df)
      | c # _ \<Rightarrow> Inl (KeyError c))"

fun is_object :: "pyval \<Rightarrow> bool" where
  "is_object (PyStr s) = True"
| "is_object (PyDecimal d) = True"
| "is_object (PyDict d) = True"
| "is_object v = False"

definition object_dtype :: "pyval list \<Rightarrow> bool" where
  "object_dtype vs = (list_ex is_object vs \<or> (vs \<noteq> [] \<and> list_all (\<lambda>v. v = PyNone) vs))"

definition object_columns :: "dataframe \<Rightarrow> string list" where
  "object_columns df = filter (\<lambda>c. object_dtype (df_column df c)) (df_columns df)"

definition fillna :: "pyval list \<Rightarrow> pyval \<Rightarrow> pyval list" where
  "fillna vs d = map (\<lambda>v. if v = PyNone then d else v) vs"

section \<open>Label encoders\<close>

text \<open>
  \<open>sklearn.preprocessing.LabelEncoder\<close>. \<open>fit\<close> stores the sorted distinct values as
  \<open>classes_\<close>; they must be all strings or all numbers (numbers are compared by value),
  else \<open>TypeError\<close>. The code of a value is its position in \<open>classes_\<close>; \<open>transform\<close> raises
  \<open>ValueError\<close> on a value that is not a class, and \<open>NotFittedError\<close> before any fit.
\<close>

datatype label_encoder = LabelEncoder (classes: "(string + rat) list option")

fun enc_key :: "pyval \<Rightarrow> (string + rat) option" where
  "enc_key (PyStr s) = Some (Inl s)"
| "enc_key (PyFloat x) = Some (Inr x)"
| "enc_key (PyInt i) = Some (Inr (of_int i))"
| "enc_key (PyDecimal d) = Some (Inr d)"
| "enc_key PyNone = None"
| "enc_key (PyDict d) = None"

fun str_of :: "pyval \<Rightarrow> string option" where
  "str_of (PyStr s) = Some s"
| "str_of v = None"

definition unique_sorted :: "pyval list \<Rightarrow> exc + (string + rat) list" where
  "unique_sorted vs =
     (if list_all (\<lambda>v. str_of v \<noteq> None) vs
      then Inr (map Inl (sort (remdups (List.map_filter str_of vs))))
      else if list_all (\<lambda>v. num_of v \<noteq> None) vs
      then Inr (map Inr (sort (remdups (List.map_filter num_of vs))))
      else Inl TypeError)"

fun index_of :: "'a list \<Rightarrow> 'a \<Rightarrow> nat option" where
  "index_of [] x = None"
| "index_of (y # ys) x = (if y = x then Some 0 else map_option Suc (index_of ys x))"

fun encode_values :: "(string + rat) list \<Rightarrow> pyval list \<Rightarrow> exc + pyval list" where
  "encode_values cls [] = Inr []"
| "encode_values cls (v # vs) =
     (case enc_key v of
        None \<Rightarrow> Inl ValueError
      | Some k \<Rightarrow>
          (case index_of cls k of
             None \<Rightarrow> Inl ValueError
           | Some i \<Rightarrow>
               (case encode_values cls vs of
                  Inl e \<Rightarrow> Inl e
                | Inr codes \<Rightarrow> Inr (PyInt (int i) # codes))))"

definition transform :: "label_encoder \<Rightarrow> pyval list \<Rightarrow> exc + pyval list" where
  "transform enc vs =
     (case classes enc of None \<Rightarrow> Inl NotFittedError | Some cls \<Rightarrow> encode_values cls vs)"

definition fit_transform :: "pyval list \<Rightarrow> exc + label_encoder \<times> pyval list" where
  "fit_transform vs =
     (case unique_sorted vs of
        Inl e \<Rightarrow> Inl e
      | Inr cls \<Rightarrow>
          (case encode_values cls vs of
             Inl e \<Rightarrow> Inl e
           | Inr codes \<Rightarrow> Inr (LabelEncoder (Some cls), codes)))"

section \<open>Encoding a table: \<open>BidPredictor._encode_features\<close>\<close>

type_synonym encoders = "(string \<times> label_encoder) list"

fun dict_set :: "(string \<times> 'a) list \<Rightarrow> string \<Rightarrow> 'a \<Rightarrow> (string \<times> 'a) list" where
  "dict_set [] k v = [(k, v)]"
| "dict_set (p # ps) k v = (if fst p = k then (k, v) # ps else p # dict_set ps k v)"

text \<open>
  The loop over the object columns of the copy \<open>X_encoded\<close>. The list of columns is taken
  before the loop. \<open>self.label_encoders\<close> is updated in place, so the encoders created
  before an exception stay, the last one without classes when its \<open>fit_transform\<close> raised.
\<close>

fun encode_loop ::
  "string list \<Rightarrow> dataframe \<Rightarrow> encoders \<Rightarrow> (exc + dataframe) \<times> encoders" where
  "encode_loop [] X_encoded label_encoders = (Inr X_encoded, label_encoders)"
| "encode_loop (column # columns) X_encoded label_encoders =
     (case map_of label_encoders column of
        None \<Rightarrow>
          (let label_encoders = dict_set label_encoders column (LabelEncoder None)
           in case fit_transform (fillna (df_column X_encoded column) (PyStr ''unknown'')) of
                Inl e \<Rightarrow> (Inl e, label_encoders)
              | Inr (enc, codes) \<Rightarrow>
                  encode_loop columns (df_set_column X_encoded column codes)
                    (dict_set label_encoders column enc))
      | Some enc \<Rightarrow>
          (case transform enc (fillna (df_column X_encoded column) (PyStr ''unknown'')) of
             Inl e \<Rightarrow> (Inl e, label_encoders)
           | Inr codes \<Rightarrow>
               encode_loop columns (df_set_column X_encoded column codes) label_encoders))"

definition encode_features :: "dataframe \<Rightarrow> encoders \<Rightarrow> (exc + dataframe) \<times> encoders" where
  "encode_features X label_encoders = encode_loop (object_columns X) X label_encoders"

section \<open>The predictor and its artifacts\<close>

text \<open>
  A \<open>GradientBoostingRegressor\<close> is unfitted, or fitted: then it predicts a vector from a
  matrix (or raises) and carries its \<open>feature_importances_\<close>. A \<open>StandardScaler\<close> is
  unfitted, or fitted: then it maps a table to a matrix (or raises, as on a string cell).
  What fitting computes belongs to scikit-learn and is a parameter of the model.
\<close>

type_synonym matrix = "pyfloat list list"

datatype regressor =
    UnfittedRegressor
  | FittedRegressor (predict_fn: "matrix \<Rightarrow> exc + pyfloat list")
                    (feature_importances: "pyfloat list")

datatype scaler =
    UnfittedScaler
  | FittedScaler (transform_fn: "dataframe \<Rightarrow> exc + matrix")

record predictor =
  win_predictor :: "regressor option"
  risk_predictor :: "regressor option"
  scaler :: scaler
  label_encoders :: encoders

text \<open>\<open>BidPredictor.__init__\<close>\<close>

definition init_predictor :: predictor where
  "init_predictor =
     \<lparr>win_predictor = None, risk_predictor = None, scaler = UnfittedScaler, label_encoders = []\<rparr>"

text \<open>
  The directory \<open>settings.ML_MODELS_DIR\<close>. A file is absent, present but not loadable, or
  holds the pickled object that \<open>save_models\<close> puts under that name.
\<close>

datatype 'a artifact = Absent | Unreadable | Stored 'a

record disk =
  win_predictor_pkl :: "regressor option artifact"
  risk_predictor_pkl :: "regressor option artifact"
  scaler_pkl :: "scaler artifact"
  label_encoders_pkl :: "encoders artifact"
  feature_importance_json :: "(string \<times> pyfloat) list artifact"

definition joblib_load :: "string \<Rightarrow> 'a artifact \<Rightarrow> exc + 'a" where
  "joblib_load name f =
     (case f of
        Absent \<Rightarrow> Inl (FileNotFoundError name)
      | Unreadable \<Rightarrow> Inl (UnpicklingError name)
      | Stored x \<Rightarrow> Inr x)"

definition file_exists :: "'a artifact \<Rightarrow> bool" where
  "file_exists f = (case f of Absent \<Rightarrow> False | _ \<Rightarrow> True)"

text \<open>
  \<open>BidPredictor.load_models\<close>: the four attributes are assigned in order; the first load
  that fails is logged and raised again, and the attributes assigned before it stay.
\<close>

definition load_models :: "predictor \<Rightarrow> disk \<Rightarrow> exc option \<times> predictor" where
  "load_models self d =
     (case joblib_load ''win_predictor.pkl'' (win_predictor_pkl d) of
        Inl e \<Rightarrow> (Some e, self)
      | Inr w \<Rightarrow>
     (let self = self\<lparr>win_predictor := w\<rparr> in
      case joblib_load ''risk_predictor.pkl'' (risk_predictor_pkl d) of
        Inl e \<Rightarrow> (Some e, self)
      | Inr r \<Rightarrow>
     (let self = self\<lparr>risk_predictor := r\<rparr> in
      case joblib_load ''scaler.pkl'' (scaler_pkl d) of
        Inl e \<Rightarrow> (Some e, self)
      | Inr s \<Rightarrow>
     (let self = self\<lparr>scaler := s\<rparr> in
      case joblib_load ''label_encoders.pkl'' (label_encoders_pkl d) of
        Inl e \<Rightarrow> (Some e, self)
      | Inr l \<Rightarrow> (None, self\<lparr>label_encoders := l\<rparr>)))))"

text \<open>\<open>BidPredictor.save_models\<close> (a failing write is logged, not raised, and not modelled).\<close>

definition save_models :: "predictor \<Rightarrow> disk \<Rightarrow> disk" where
  "save_models self d =
     d\<lparr>win_predictor_pkl := Stored (win_predictor self),
       risk_predictor_pkl := Stored (risk_predictor self),
       scaler_pkl := Stored (scaler self),
       label_encoders_pkl := Stored (label_encoders self)\<rparr>"

text \<open>\<open>BidPredictor._models_exist\<close>\<close>

definition models_exist :: "disk \<Rightarrow> bool" where
  "models_exist d =
     (file_exists (win_predictor_pkl d) \<and> file_exists (risk_predictor_pkl d) \<and>
      file_exists (scaler_pkl d) \<and> file_exists (label_encoders_pkl d))"

text \<open>
  \<open>BidPredictor._save_feature_importance\<close>: the importances zipped with the feature names,
  sorted by importance, largest first (the sort is stable), written as JSON.
\<close>

definition save_feature_importance :: "predictor \<Rightarrow> string list \<Rightarrow> disk \<Rightarrow> disk" where
  "save_feature_importance self feature_names d =
     (case win_predictor self of
        None \<Rightarrow> d
      | Some UnfittedRegressor \<Rightarrow> d
      | Some (FittedRegressor p importance) \<Rightarrow>
          d\<lparr>feature_importance_json :=
               Stored (rev (sort_key snd (rev (zip feature_names importance))))\<rparr>)"

section \<open>Training: \<open>BidPredictor.train_models\<close>\<close>

text \<open>
  What scikit-learn computes is a parameter: the scaler fitted to a table, the regressor
  fitted to a matrix and a target vector, and the shuffle of \<open>n\<close> indices that
  \<open>random_state=42\<close> yields.
\<close>

record sklearn =
  scaler_fit :: "dataframe \<Rightarrow> exc + scaler"
  gbr_fit :: "matrix \<Rightarrow> pyfloat list \<Rightarrow> exc + regressor"
  permutation :: "nat \<Rightarrow> nat list"

text \<open>
  \<open>StandardScaler.fit_transform\<close>: fit, then transform the same table. \<open>fit\<close> resets the
  scaler first, so a failed fit leaves it unfitted.
\<close>

definition scaler_transform :: "scaler \<Rightarrow> dataframe \<Rightarrow> exc + matrix" where
  "scaler_transform sc X =
     (case sc of UnfittedScaler \<Rightarrow> Inl NotFittedError | FittedScaler f \<Rightarrow> f X)"

definition scaler_fit_transform :: "sklearn \<Rightarrow> dataframe \<Rightarrow> (exc + matrix) \<times> scaler" where
  "scaler_fit_transform sk X =
     (case scaler_fit sk X of
        Inl e \<Rightarrow> (Inl e, UnfittedScaler)
      | Inr sc \<Rightarrow> (scaler_transform sc X, sc))"

text \<open>
  \<open>train_test_split(X, y, test_size=0.2, random_state=42)\<close>: both arguments must have the
  same number \<open>n\<close> of samples; the test set has \<open>ceil(0.2 * n)\<close> of them (the rounding of the
  product does not change the ceiling for any \<open>n\<close> below \<open>2^50\<close>), the training set the
  rest, which must not be empty. The first indices of the shuffle are the test set.
\<close>

definition select :: "'a list \<Rightarrow> nat list \<Rightarrow> 'a list" where
  "select xs idx = map (\<lambda>i. xs ! i) (filter (\<lambda>i. i < length xs) idx)"

definition n_test :: "nat \<Rightarrow> nat" where
  "n_test n = nat \<lceil>(of_nat n :: rat) / 5\<rceil>"

definition train_test_split ::
  "sklearn \<Rightarrow> 'a list \<Rightarrow> 'b list \<Rightarrow> exc + 'a list \<times> 'a list \<times> 'b list \<times> 'b list" where
  "train_test_split sk X y =
     (let n = length X in
      if length y \<noteq> n then Inl ValueError
      else let n_train = n - n_test n in
      if n_train = 0 then Inl ValueError
      else let ind_test = take (n_test n) (permutation sk n);
               ind_train = take n_train (drop (n_test n) (permutation sk n))
           in Inr (select X ind_train, select X ind_test, select y ind_train, select y ind_test))"

text \<open>
  \<open>GradientBoostingRegressor.fit(X, y)\<close> validates its arguments: \<open>X\<close> and \<open>y\<close> must have the
  same number of samples and \<open>y\<close> must be numeric, else \<open>ValueError\<close>. \<open>predict\<close> needs a
  fitted regressor.
\<close>

fun as_vector :: "pyval list \<Rightarrow> exc + pyfloat list" where
  "as_vector [] = Inr []"
| "as_vector (v # vs) =
     (case num_of v of
        None \<Rightarrow> Inl ValueError
      | Some x \<Rightarrow> (case as_vector vs of Inl e \<Rightarrow> Inl e | Inr xs \<Rightarrow> Inr (x # xs)))"

definition regressor_fit :: "sklearn \<Rightarrow> matrix \<Rightarrow> pyval list \<Rightarrow> exc + regressor" where
  "regressor_fit sk X y =
     (if length X \<noteq> length y then Inl ValueError
      else case as_vector y of Inl e \<Rightarrow> Inl e | Inr v \<Rightarrow> gbr_fit sk X v)"

definition regressor_predict :: "regressor option \<Rightarrow> matrix \<Rightarrow> exc + pyfloat list" where
  "regressor_predict r X =
     (case r of
        None \<Rightarrow> Inl AttributeError
      | Some UnfittedRegressor \<Rightarrow> Inl NotFittedError
      | Some (FittedRegressor f imp) \<Rightarrow> f X)"

text \<open>
  The method returns \<open>None\<close> or raises; either way the predictor and the directory are
  left as they are at that point. It is given here in the order of its comments: the risk
  predictor and the saving (from \<open># Train risk predictor\<close>), the split, the win predictor
  and its evaluation, whose metrics are only logged (from \<open># Split data\<close>), the encoding
  and the scaling (from \<open># Prepare features and target\<close>), and the two guards.
\<close>

definition fit_risk_and_save ::
  "sklearn \<Rightarrow> predictor \<Rightarrow> disk \<Rightarrow> dataframe \<Rightarrow> dataframe \<Rightarrow> matrix \<Rightarrow>
     exc option \<times> predictor \<times> disk" where
  "fit_risk_and_save sk self d df X X_train =
     (case calculate_risk_scores df of
        Inl e \<Rightarrow> (Some e, self, d)
      | Inr risk_scores \<Rightarrow>
          (let self = self\<lparr>risk_predictor := Some UnfittedRegressor\<rparr>
           in case regressor_fit sk X_train (map PyFloat risk_scores) of
                Inl e \<Rightarrow> (Some e, self, d)
              | Inr r \<Rightarrow>
                  (let self = self\<lparr>risk_predictor := Some r\<rparr>;
                       d = save_models self d;
                       d = save_feature_importance self (df_columns X) d
                   in (None, self, d))))"

definition fit_win_and_evaluate ::
  "sklearn \<Rightarrow> predictor \<Rightarrow> disk \<Rightarrow> dataframe \<Rightarrow> dataframe \<Rightarrow> matrix \<Rightarrow> pyval list \<Rightarrow>
     exc option \<times> predictor \<times> disk" where
  "fit_win_and_evaluate sk self d df X X_scaled y =
     (case train_test_split sk X_scaled y of
        Inl e \<Rightarrow> (Some e, self, d)
      | Inr (X_train, X_test, y_train, y_test) \<Rightarrow>
          (let self = self\<lparr>win_predictor := Some UnfittedRegressor\<rparr>
           in case regressor_fit sk X_train y_train of
                Inl e \<Rightarrow> (Some e, self, d)
              | Inr w \<Rightarrow>
                  (let self = self\<lparr>win_predictor := Some w\<rparr>
                   in case regressor_predict (win_predictor self) X_test of
                        Inl e \<Rightarrow> (Some e, self, d)
                      | Inr y_pred \<Rightarrow> fit_risk_and_save sk self d df X X_train)))"

definition encode_and_scale ::
  "sklearn \<Rightarrow> predictor \<Rightarrow> disk \<Rightarrow> dataframe \<Rightarrow> exc option \<times> predictor \<times> disk" where
  "encode_and_scale sk self d df =
     (case df_drop df [''target'', ''bid_id''] of
        Inl e \<Rightarrow> (Some e, self, d)
      | Inr X \<Rightarrow>
          (let y = df_column df ''target'';
               enc = encode_features X (label_encoders self);
               self = self\<lparr>label_encoders := snd enc\<rparr>
           in case fst enc of
                Inl e \<Rightarrow> (Some e, self, d)
              | Inr X_encoded \<Rightarrow>
                  (let sc = scaler_fit_transform sk X_encoded;
                       self = self\<lparr>scaler := snd sc\<rparr>
                   in case fst sc of
                        Inl e \<Rightarrow> (Some e, self, d)
                      | Inr X_scaled \<Rightarrow> fit_win_and_evaluate sk self d df X X_scaled y)))"

definition train_models ::
  "sklearn \<Rightarrow> bool \<Rightarrow> predictor \<Rightarrow> disk \<Rightarrow> database \<Rightarrow> exc option \<times> predictor \<times> disk" where
  "train_models sk retrain self d db =
     (if \<not> retrain \<and> models_exist d
      then (fst (load_models self d), snd (load_models self d), d)
      else (case prepare_training_data db of
              Inl e \<Rightarrow> (Some e, self, d)
            | Inr df \<Rightarrow>
                if df = [] \<or> length df < 10 then (None, self, d)
                else encode_and_scale sk self d df))"

section \<open>Prediction: \<open>BidPredictor.predict_for_bid\<close>\<close>

text \<open>\<open>BidPredictor._get_default_prediction\<close>\<close>

definition get_default_prediction :: pyval where
  "get_default_prediction =
     PyDict [(''win_probability'', PyFloat (dbl (5 / 10))),
             (''risk_score'', PyFloat (dbl (5 / 10))),
             (''confidence'', PyFloat (dbl (5 / 10))),
             (''features'', PyDict [])]"

text \<open>
  The loop that encodes the one-row table at inference: a column with an encoder is
  replaced by the code of its first cell; a column without one is left as it is.
\<close>

fun predict_encode_loop :: "string list \<Rightarrow> dataframe \<Rightarrow> encoders \<Rightarrow> exc + dataframe" where
  "predict_encode_loop [] features_df encs = Inr features_df"
| "predict_encode_loop (column # columns) features_df encs =
     (case map_of encs column of
        None \<Rightarrow> predict_encode_loop columns features_df encs
      | Some enc \<Rightarrow>
          (case df_column features_df column of
             [] \<Rightarrow> Inl IndexError
           | v # _ \<Rightarrow>
               (case transform enc [v] of
                  Inl e \<Rightarrow> Inl e
                | Inr codes \<Rightarrow>
                    predict_encode_loop columns (df_set_column features_df column codes)
                      encs)))"

definition first_item :: "pyfloat list \<Rightarrow> exc + pyfloat" where
  "first_item xs = (case xs of [] \<Rightarrow> Inl IndexError | x # _ \<Rightarrow> Inr x)"

text \<open>The body of the second \<open>try\<close> block; \<open>now\<close> is \<open>datetime.now().isoformat()\<close>.\<close>

definition predict_body :: "string \<Rightarrow> predictor \<Rightarrow> pydict \<Rightarrow> exc + pyval" where
  "predict_body now self features =
     (let features_df = [features] in
      try_bind (predict_encode_loop (object_columns features_df) features_df
                  (label_encoders self)) (\<lambda>features_df.
      try_bind (scaler_transform (scaler self) features_df) (\<lambda>features_scaled.
      try_bind (regressor_predict (win_predictor self) features_scaled) (\<lambda>win.
      try_bind (first_item win) (\<lambda>win_probability.
      try_bind (regressor_predict (risk_predictor self) features_scaled) (\<lambda>risk.
      try_bind (first_item risk) (\<lambda>risk_score.
      let confidence = dbl (8 / 10) in
      Inr (PyDict [(''win_probability'', PyFloat win_probability),
                   (''risk_score'', PyFloat risk_score),
                   (''confidence'', PyFloat confidence),
                   (''features'', PyDict features),
                   (''timestamp'', PyStr now)]))))))))"

text \<open>
  \<open>predict_for_bid\<close> returns a dictionary or raises, and leaves the predictor as the lazy
  load left it. \<open>_extract_features\<close> runs between the two \<open>try\<close> blocks, so its exception
  is not caught.
\<close>

definition predict_for_bid ::
  "string \<Rightarrow> predictor \<Rightarrow> disk \<Rightarrow> database \<Rightarrow> bid \<Rightarrow> (exc + pyval) \<times> predictor" where
  "predict_for_bid now self d db b =
     (let loaded = (if win_predictor self = None then load_models self d else (None, self));
          self = snd loaded
      in case fst loaded of
           Some e \<Rightarrow> (Inr get_default_prediction, self)
         | None \<Rightarrow>
             (case extract_features db b of
                Inl e \<Rightarrow> (Inl e, self)
              | Inr features \<Rightarrow>
                  (case predict_body now self features of
                     Inl e \<Rightarrow> (Inr get_default_prediction, self)
                   | Inr prediction \<Rightarrow> (Inr prediction, self))))"

section \<open>Recommendations: \<open>BidPredictor.get_recommendations\<close>\<close>

text \<open>The list \<open>recommendations\<close> as it stands before the last line.\<close>

definition recommendations_list :: "pydict \<Rightarrow> exc + string list" where
  "recommendations_list prediction =
     (let recommendations = [] in
      try_bind (py_getitem prediction ''win_probability'') (\<lambda>wp.
      try_bind (py_lt wp (dbl (3 / 10))) (\<lambda>c1.
      try_bind (if c1 then Inr False else py_lt wp (dbl (6 / 10))) (\<lambda>c2.
      let recommendations =
            (if c1 then recommendations @
                  [''Consider revising bid strategy'',
                   ''Strengthen customer relationship'',
                   ''Review pricing strategy'',
                   ''Enhance technical proposal'']
             else if c2 then recommendations @
                  [''Focus on key differentiators'',
                   ''Clarify scope and deliverables'',
                   ''Strengthen risk mitigation plan'',
                   ''Review competitive positioning'']
             else recommendations) in
      try_bind (py_getitem prediction ''risk_score'') (\<lambda>rs.
      try_bind (py_gt rs (dbl (7 / 10))) (\<lambda>c3.
      let recommendations =
            (if c3 then recommendations @
                  [''Implement enhanced risk monitoring'',
                   ''Develop contingency plans'',
                   ''Increase management oversight'']
             else recommendations) in
      try_bind (case py_get prediction ''features'' (PyDict []) of
                  PyDict features \<Rightarrow> Inr features
                | _ \<Rightarrow> Inl AttributeError) (\<lambda>features.
      try_bind (py_lt (py_get features ''customer_relationship_score'' (PyInt 0)) 40) (\<lambda>c4.
      let recommendations =
            (if c4 then recommendations @ [''Schedule customer engagement meetings'']
             else recommendations) in
      try_bind (py_lt (py_get features ''days_until_due'' (PyInt 0)) 14) (\<lambda>c5.
      let recommendations =
            (if c5 then recommendations @ [''Accelerate review and approval process'']
             else recommendations) in
      Inr recommendations)))))))))"

text \<open>
  \<open>list(set(recommendations))\<close> holds each element of the list once, in the iteration
  order of the set, which the language leaves open (it varies with the hash seed of the
  process). So \<open>get_recommendations\<close> is a relation between the prediction and a result:
  the exception of the list, or any duplicate-free enumeration of its elements.
\<close>

definition list_of_set :: "'a list \<Rightarrow> 'a list \<Rightarrow> bool" where
  "list_of_set xs ys = (distinct ys \<and> set ys = set xs)"

definition get_recommendations :: "pydict \<Rightarrow> exc + string list \<Rightarrow> bool" where
  "get_recommendations prediction result =
     (case recommendations_list prediction of
        Inl e \<Rightarrow> result = Inl e
      | Inr recommendations \<Rightarrow>
          (case result of Inl e \<Rightarrow> False | Inr ys \<Rightarrow> list_of_set recommendations ys))"

section \<open>Reference definitions and sample inputs\<close>

text \<open>
  The risk-label rule in the words of the specification: start at 0, add 0.3, 0.2, 0.2 and
  0.2 under the four conditions, clamp to the unit interval. The additions are float
  additions.
\<close>

definition risk_label_spec :: "rat \<Rightarrow> rat \<Rightarrow> rat \<Rightarrow> rat \<Rightarrow> pyfloat" where
  "risk_label_spec bid_val relationship complexity_sc days =
     min 1 (max 0
       (fadd (fadd (fadd (fadd 0
          (if bid_val > 1000000 then dbl (3 / 10) else 0))
          (if relationship < 30 then dbl (2 / 10) else 0))
          (if complexity_sc > dbl (7 / 10) then dbl (2 / 10) else 0))
          (if days < 7 then dbl (2 / 10) else 0)))"

text \<open>The label of the specification for the training row of a bid.\<close>

definition bid_risk_label :: "database \<Rightarrow> bid \<Rightarrow> pyfloat" where
  "bid_risk_label db b =
     risk_label_spec (dbl (dec_or (bid_value b) 0))
       (dbl (of_int (relationship_score (bid_customer b))))
       (dbl (dec_or (complexity_score b) (1 / 2)))
       (of_int (int_or (days_until_due db b) 0))"

text \<open>The two ways of accumulating the label, by the outcome of the four tests.\<close>

definition risk_steps :: "bool \<Rightarrow> bool \<Rightarrow> bool \<Rightarrow> bool \<Rightarrow> pyfloat" where
  "risk_steps c1 c2 c3 c4 =
     (let risk = 0;
          risk = (if c1 then fadd risk (dbl (3 / 10)) else risk);
          risk = (if c2 then fadd risk (dbl (2 / 10)) else risk);
          risk = (if c3 then fadd risk (dbl (2 / 10)) else risk);
          risk = (if c4 then fadd risk (dbl (2 / 10)) else risk)
      in min (max risk 0) 1)"

definition risk_sum :: "bool \<Rightarrow> bool \<Rightarrow> bool \<Rightarrow> bool \<Rightarrow> pyfloat" where
  "risk_sum c1 c2 c3 c4 =
     min 1 (max 0
       (fadd (fadd (fadd (fadd 0
          (if c1 then dbl (3 / 10) else 0))
          (if c2 then dbl (2 / 10) else 0))
          (if c3 then dbl (2 / 10) else 0))
          (if c4 then dbl (2 / 10) else 0)))"

text \<open>A row on which all four tests succeed.\<close>

definition risky_row :: pydict where
  "risky_row =
     [(''bid_value'', PyFloat 2000000), (''customer_relationship_score'', PyFloat 10),
      (''complexity_score'', PyFloat (dbl (9 / 10))), (''days_until_due'', PyInt 3)]"

text \<open>A prediction with a low win probability, a high risk and two features.\<close>

definition sample_prediction :: pydict where
  "sample_prediction =
     [(''win_probability'', PyFloat (dbl (2 / 10))),
      (''risk_score'', PyFloat (dbl (8 / 10))),
      (''features'', PyDict [(''customer_relationship_score'', PyInt 20),
                              (''days_until_due'', PyInt 5)])]"

definition sample_recommendations :: "string list" where
  "sample_recommendations =
     [''Consider revising bid strategy'',
      ''Strengthen customer relationship'',
      ''Review pricing strategy'',
      ''Enhance technical proposal'',
      ''Implement enhanced risk monitoring'',
      ''Develop contingency plans'',
      ''Increase management oversight'',
      ''Schedule customer engagement meetings'',
      ''Accelerate review and approval process'']"

text \<open>The default prediction as a dictionary, and the list it leads to.\<close>

definition default_dict :: pydict where
  "default_dict = (case get_default_prediction of PyDict d \<Rightarrow> d | _ \<Rightarrow> [])"

definition default_recommendations :: "string list" where
  "default_recommendations =
     [''Focus on key differentiators'',
      ''Clarify scope and deliverables'',
      ''Strengthen risk mitigation plan'',
      ''Review competitive positioning'',
      ''Schedule customer engagement meetings'',
      ''Accelerate review and approval process'']"

text \<open>
  The number of bids that the customer of a bid has in the database, the bid itself
  included when it is stored, and how many of them are won or approved.
\<close>

definition customer_bid_count :: "database \<Rightarrow> bid \<Rightarrow> nat" where
  "customer_bid_count db b =
     length (filter (\<lambda>p. customer_id (bid_customer p) = customer_id (bid_customer b)) (bids db))"

definition customer_win_count :: "database \<Rightarrow> bid \<Rightarrow> nat" where
  "customer_win_count db b =
     length (filter (\<lambda>p. customer_id (bid_customer p) = customer_id (bid_customer b)
                          \<and> (status p = ''won'' \<or> status p = ''approved'')) (bids db))"

text \<open>The number of prior bids of the customer: the customer's bids other than the bid.\<close>

definition prior_bids :: "database \<Rightarrow> bid \<Rightarrow> nat" where
  "prior_bids db b =
     length (filter (\<lambda>p. customer_id (bid_customer p) = customer_id (bid_customer b)
                          \<and> bid_id p \<noteq> bid_id b) (bids db))"

text \<open>The value of one feature of a bid: \<open>self._extract_features(bid)[key]\<close>.\<close>

definition feature :: "database \<Rightarrow> bid \<Rightarrow> string \<Rightarrow> exc + pyval" where
  "feature db b key = try_bind (extract_features db b) (\<lambda>features. py_getitem features key)"

text \<open>A customer, a won bid of that customer, and two databases.\<close>

definition sample_customer :: customer where
  "sample_customer =
     \<lparr>customer_id = 1, customer_type = ''corporate'', industry = [],
      annual_revenue = None, relationship_score = 50\<rparr>"

definition sample_bid :: bid where
  "sample_bid =
     \<lparr>bid_id = ''b-1'', description = ''Data centre'', bid_due_date = Some 30,
      priority = ''medium'', complexity = ''moderate'', business_unit = ''JIS'',
      bid_level = ''C'', bid_value = Some 5000, estimated_cost = None, profit_margin = None,
      bid_customer = sample_customer, region = ''APAC'', team_members = [],
      status = ''won'', complexity_score = None, requirements = JObject [], review_cycle = 1\<rparr>"

definition empty_database :: database where
  "empty_database = \<lparr>bids = [], today = 0\<rparr>"

definition small_database :: database where
  "small_database = \<lparr>bids = [sample_bid, sample_bid\<lparr>bid_id := ''b-2'', status := ''lost''\<rparr>], today = 0\<rparr>"

text \<open>
  The first bid of a new customer, stored as a draft; a database of three bids of one
  customer, two of them won; and a won bid whose requirements are the JSON number 5.
\<close>

definition draft_bid :: bid where
  "draft_bid = sample_bid\<lparr>status := ''draft''\<rparr>"

definition first_bid_database :: database where
  "first_bid_database = \<lparr>bids = [draft_bid], today = 0\<rparr>"

definition history_database :: database where
  "history_database =
     \<lparr>bids = [sample_bid, sample_bid\<lparr>bid_id := ''b-2'', status := ''lost''\<rparr>,
              sample_bid\<lparr>bid_id := ''b-3'', status := ''approved''\<rparr>],
      today = 0\<rparr>"

definition number_bid :: bid where
  "number_bid = sample_bid\<lparr>bid_id := ''b-5'', requirements := JNumber 5\<rparr>"

definition number_database :: database where
  "number_database = \<lparr>bids = [number_bid], today = 0\<rparr>"

text \<open>The first \<open>try\<close> block of \<open>predict_for_bid\<close>: load the models if none is in memory.\<close>

definition lazy_load :: "predictor \<Rightarrow> disk \<Rightarrow> exc option \<times> predictor" where
  "lazy_load self d = (if win_predictor self = None then load_models self d else (None, self))"

text \<open>
  A directory without artifacts, a predictor whose win regressor was created but not
  fitted, and a predictor with fitted regressors and scaler whose encoder for \<open>region\<close>
  was fitted on the one value \<open>EU\<close>.
\<close>

definition empty_disk :: disk where
  "empty_disk =
     \<lparr>win_predictor_pkl = Absent, risk_predictor_pkl = Absent, scaler_pkl = Absent,
      label_encoders_pkl = Absent, feature_importance_json = Absent\<rparr>"

definition unfitted_predictor :: predictor where
  "unfitted_predictor = init_predictor\<lparr>win_predictor := Some UnfittedRegressor\<rparr>"

definition europe_predictor :: predictor where
  "europe_predictor =
     \<lparr>win_predictor = Some (FittedRegressor (\<lambda>X. Inr (map (\<lambda>row. 1 / 2) X)) []),
      risk_predictor = Some (FittedRegressor (\<lambda>X. Inr (map (\<lambda>row. 1 / 4) X)) []),
      scaler = FittedScaler (\<lambda>X. Inr (map (\<lambda>row. []) X)),
      label_encoders = [(''region'', LabelEncoder (Some [Inl ''EU'']))]\<rparr>"

text \<open>A time stamp, as \<open>datetime.now().isoformat()\<close> gives it.\<close>

definition sample_now :: string where
  "sample_now = ''2026-01-01T09:00:00''"

text \<open>
  A library whose fits always fail and whose shuffle is the identity, a library whose fits
  succeed, a directory with the four artifacts, one whose first artifact cannot be
  unpickled, and a database with ten won bids.
\<close>

definition working_sklearn :: sklearn where
  "working_sklearn =
     \<lparr>scaler_fit = (\<lambda>X. Inr (FittedScaler (\<lambda>X. Inr (map (\<lambda>row. []) X)))),
      gbr_fit = (\<lambda>X y. Inr (FittedRegressor (\<lambda>X. Inr (map (\<lambda>row. 0) X)) [])),
      permutation = (\<lambda>n. [0..<n])\<rparr>"

definition sample_sklearn :: sklearn where
  "sample_sklearn =
     \<lparr>scaler_fit = (\<lambda>X. Inl (LibraryError 0)),
      gbr_fit = (\<lambda>X y. Inl (LibraryError 1)),
      permutation = (\<lambda>n. [0..<n])\<rparr>"

definition stored_disk :: disk where
  "stored_disk =
     \<lparr>win_predictor_pkl = Stored (Some UnfittedRegressor),
      risk_predictor_pkl = Stored (Some UnfittedRegressor),
      scaler_pkl = Stored UnfittedScaler,
      label_encoders_pkl = Stored [],
      feature_importance_json = Absent\<rparr>"

definition corrupt_disk :: disk where
  "corrupt_disk = stored_disk\<lparr>win_predictor_pkl := Unreadable\<rparr>"

definition big_database :: database where
  "big_database = \<lparr>bids = replicate 10 sample_bid, today = 0\<rparr>"

text \<open>
  Whether a training run gets as far as the fit of the risk regressor: every step before
  it returns.
\<close>

definition reaches_risk_fit :: "sklearn \<Rightarrow> predictor \<Rightarrow> database \<Rightarrow> bool" where
  "reaches_risk_fit sk self db =
     (case prepare_training_data db of Inl e \<Rightarrow> False | Inr df \<Rightarrow>
     (case df_drop df [''target'', ''bid_id''] of Inl e \<Rightarrow> False | Inr X \<Rightarrow>
     (case fst (encode_features X (label_encoders self)) of Inl e \<Rightarrow> False | Inr X_encoded \<Rightarrow>
     (case fst (scaler_fit_transform sk X_encoded) of Inl e \<Rightarrow> False | Inr X_scaled \<Rightarrow>
     (case train_test_split sk X_scaled (df_column df ''target'') of
        Inl e \<Rightarrow> False
      | Inr split \<Rightarrow>
     (case regressor_fit sk (fst split) (fst (snd (snd split))) of
        Inl e \<Rightarrow> False
      | Inr w \<Rightarrow> \<not> isl (regressor_predict (Some w) (fst (snd split)))))))))"

text \<open>A table with one categorical column and two rows.\<close>

definition region_table :: dataframe where
  "region_table = [[(''region'', PyStr ''EU'')], [(''region'', PyStr ''APAC'')]]"

section \<open>Float facts\<close>

text \<open>The sums and comparisons of doubles that the proofs need, each evaluated once.\<close>

lemma fadd_0_0: "fadd 0 0 = 0" by code_simp
lemma fadd_0_3: "fadd 0 (dbl (3 / 10)) = dbl (3 / 10)" by code_simp
lemma fadd_0_2: "fadd 0 (dbl (2 / 10)) = dbl (2 / 10)" by code_simp
lemma fadd_3_0: "fadd (dbl (3 / 10)) 0 = dbl (3 / 10)" by code_simp
lemma fadd_2_0: "fadd (dbl (2 / 10)) 0 = dbl (2 / 10)" by code_simp
lemma fadd_3_2: "fadd (dbl (3 / 10)) (dbl (2 / 10)) = 1 / 2" by code_simp
lemma fadd_5_0: "fadd (1 / 2) 0 = 1 / 2" by code_simp
lemma fadd_5_2: "fadd (1 / 2) (dbl (2 / 10)) = dbl (7 / 10)" by code_simp
lemma fadd_7_0: "fadd (dbl (7 / 10)) 0 = dbl (7 / 10)" by code_simp
lemma fadd_7_2: "fadd (dbl (7 / 10)) (dbl (2 / 10)) = 2026619832316723 / 2251799813685248"
  by code_simp
lemma fadd_2_2: "fadd (dbl (2 / 10)) (dbl (2 / 10)) = dbl (4 / 10)" by code_simp
lemma fadd_4_0: "fadd (dbl (4 / 10)) 0 = dbl (4 / 10)" by code_simp
lemma fadd_4_2: "fadd (dbl (4 / 10)) (dbl (2 / 10)) = 5404319552844596 / 9007199254740992"
  by code_simp
lemma fadd_6_0:
  "fadd (5404319552844596 / 9007199254740992) 0 = 5404319552844596 / 9007199254740992"
  by code_simp

lemmas fadd_facts = fadd_0_0 fadd_0_3 fadd_0_2 fadd_3_0 fadd_2_0 fadd_3_2 fadd_5_0 fadd_5_2
  fadd_7_0 fadd_7_2 fadd_2_2 fadd_4_0 fadd_4_2 fadd_6_0

lemma dbl_1_lt_7: "\<not> dbl (7 / 10) < dbl (1 / 10)" by code_simp
lemma dbl_7_lt_9: "dbl (7 / 10) < dbl (9 / 10)" by code_simp
lemma dbl_2_lt_3: "dbl (1 / 5) < dbl (3 / 10)" by code_simp
lemma dbl_7_lt_8: "dbl (7 / 10) < dbl (4 / 5)" by code_simp
lemma dbl_5_lt_3: "\<not> dbl (1 / 2) < dbl (3 / 10)" by code_simp
lemma dbl_5_lt_6: "dbl (1 / 2) < dbl (3 / 5)" by code_simp
lemma dbl_7_lt_5: "\<not> dbl (7 / 10) < dbl (1 / 2)" by code_simp

section \<open>Risk labels\<close>

lemma clamp_commute: "min (max x 0) 1 = min 1 (max 0 (x::rat))"
  by (simp add: min.commute max.commute)

lemma risk_steps_sum: "risk_steps c1 c2 c3 c4 = risk_sum c1 c2 c3 c4"
  by (cases c1; cases c2; cases c3; cases c4;
      simp only: risk_steps_def risk_sum_def Let_def if_True if_False fadd_facts
        clamp_commute)

lemma risk_label_spec_sum:
  "risk_label_spec a b c d = risk_sum (1000000 < a) (b < 30) (dbl (7 / 10) < c) (d < 7)"
  by (simp only: risk_sum_def risk_label_spec_def)

lemma risk_sum_none: "risk_sum False False False False = 0"
  by (simp only: risk_sum_def if_False fadd_facts)

lemma risk_sum_all:
  "risk_sum True True True True = 2026619832316723 / 2251799813685248"
  by (simp only: risk_sum_def if_True fadd_facts)

lemma risk_of_row_num:
  assumes "map_of row ''bid_value'' = Some va" "num_of va = Some a"
      and "map_of row ''customer_relationship_score'' = Some vb" "num_of vb = Some b"
      and "map_of row ''complexity_score'' = Some vc" "num_of vc = Some c"
      and "map_of row ''days_until_due'' = Some vd" "num_of vd = Some d"
  shows "risk_of_row row = Inr (risk_label_spec a b c d)"
proof -
  have "risk_of_row row = Inr (risk_steps (1000000 < a) (b < 30) (dbl (7 / 10) < c) (d < 7))"
    using assms
    by (simp add: risk_of_row_def risk_steps_def try_bind_def py_getitem_def py_gt_def
        py_lt_def Let_def)
  also have "risk_steps (1000000 < a) (b < 30) (dbl (7 / 10) < c) (d < 7)
      = risk_label_spec a b c d"
    by (simp only: risk_steps_sum risk_label_spec_sum)
  finally show ?thesis .
qed

lemma risk_loop_all2:
  "list_all2 (\<lambda>b row. risk_of_row row = Inr (h b)) bs rows
    \<Longrightarrow> risk_loop rows risks = Inr (risks @ map h bs)"
  by (induction bs rows arbitrary: risks rule: list_all2_induct) auto

lemma prepare_loop_all2:
  "prepare_loop db bs data = Inr df \<Longrightarrow>
     \<exists>rows. df = data @ rows \<and> list_all2 (\<lambda>b row. training_row db b = Inr row) bs rows"
proof (induction bs arbitrary: data)
  case Nil
  then show ?case by simp
next
  case (Cons b bs)
  then obtain row where row: "training_row db b = Inr row"
    and loop: "prepare_loop db bs (data @ [row]) = Inr df"
    by (auto split: sum.splits)
  from Cons.IH [OF loop] obtain rows where
    "df = (data @ [row]) @ rows" "list_all2 (\<lambda>b row. training_row db b = Inr row) bs rows"
    by blast
  with row show ?case
    by (intro exI [of _ "row # rows"]) simp
qed

lemma prepare_loop_total:
  "list_all (\<lambda>b. \<not> isl (requirements_count (requirements b))) bs
    \<Longrightarrow> \<exists>df. prepare_loop db bs data = Inr df"
proof (induction bs arbitrary: data)
  case Nil
  then show ?case by simp
next
  case (Cons b bs)
  then obtain n where "requirements_count (requirements b) = Inr n"
    by (cases "requirements_count (requirements b)") auto
  then obtain row where "training_row db b = Inr row"
    by (simp add: training_row_def extract_features_def try_bind_def Let_def)
  with Cons show ?case by simp
qed

lemma prepare_training_data_total:
  "list_all (\<lambda>b. \<not> isl (requirements_count (requirements b))) (filter eligible (bids db))
    \<Longrightarrow> prepare_training_data db = Inr (projr (prepare_training_data db))"
  using prepare_loop_total [of "filter eligible (bids db)" db "[]"]
  by (auto simp: prepare_training_data_def)

lemma length_prepare_training_data:
  "prepare_training_data db = Inr df \<Longrightarrow> length df = length (filter eligible (bids db))"
  by (auto simp: prepare_training_data_def dest!: prepare_loop_all2 list_all2_lengthD)

lemma map_of_py_setitem:
  "map_of (py_setitem d k v) k' = (if k' = k then Some v else map_of d k')"
  by (induction d k v rule: py_setitem.induct) auto

lemma extract_features_cells:
  assumes "extract_features db b = Inr features"
  shows "map_of features ''bid_value'' = Some (PyFloat (dbl (dec_or (bid_value b) 0)))"
    and "map_of features ''customer_relationship_score''
           = Some (PyFloat (dbl (of_int (relationship_score (bid_customer b)))))"
    and "map_of features ''complexity_score''
           = Some (PyFloat (dbl (dec_or (complexity_score b) (1 / 2))))"
    and "map_of features ''days_until_due'' = Some (PyInt (int_or (days_until_due db b) 0))"
    and "map_of features ''historical_win_rate''
           = Some (PyFloat (historical_win_rate db (bid_customer b)))"
    and "map_of features ''region'' = Some (PyStr (region b))"
  using assms
  by (auto simp: extract_features_def try_bind_def Let_def split: sum.splits)

lemma extract_features_total:
  "requirements_count (requirements b) = Inr n
    \<Longrightarrow> extract_features db b = Inr (projr (extract_features db b))"
  by (simp add: extract_features_def try_bind_def Let_def)

lemma extract_features_raises:
  "requirements_count (requirements b) = Inl e \<Longrightarrow> extract_features db b = Inl e"
  by (simp add: extract_features_def try_bind_def Let_def)

lemma training_row_cells:
  assumes "training_row db b = Inr row"
  shows "map_of row ''bid_value'' = Some (PyFloat (dbl (dec_or (bid_value b) 0)))"
    and "map_of row ''customer_relationship_score''
           = Some (PyFloat (dbl (of_int (relationship_score (bid_customer b)))))"
    and "map_of row ''complexity_score''
           = Some (PyFloat (dbl (dec_or (complexity_score b) (1 / 2))))"
    and "map_of row ''days_until_due'' = Some (PyInt (int_or (days_until_due db b) 0))"
proof -
  from assms obtain features where f: "extract_features db b = Inr features"
    and row: "row = py_setitem (py_setitem features ''target''
        (PyInt (if status b \<in> set [''won'', ''approved''] then 1 else 0)))
        ''bid_id'' (PyStr (bid_id b))"
    by (auto simp: training_row_def try_bind_def Let_def split: sum.splits)
  show "map_of row ''bid_value'' = Some (PyFloat (dbl (dec_or (bid_value b) 0)))"
    and "map_of row ''customer_relationship_score''
           = Some (PyFloat (dbl (of_int (relationship_score (bid_customer b)))))"
    and "map_of row ''complexity_score''
           = Some (PyFloat (dbl (dec_or (complexity_score b) (1 / 2))))"
    and "map_of row ''days_until_due'' = Some (PyInt (int_or (days_until_due db b) 0))"
    using extract_features_cells [OF f] by (simp_all add: row map_of_py_setitem)
qed

lemma risk_of_training_row:
  assumes "training_row db b = Inr row"
  shows "risk_of_row row = Inr (bid_risk_label db b)"
  unfolding bid_risk_label_def
  by (rule risk_of_row_num [OF training_row_cells(1) [OF assms] _ training_row_cells(2) [OF assms] _
        training_row_cells(3) [OF assms] _ training_row_cells(4) [OF assms]]) simp_all

lemma risk_scores_of_training_data:
  assumes "prepare_training_data db = Inr df"
  shows "calculate_risk_scores df = Inr (map (bid_risk_label db) (filter eligible (bids db)))"
proof -
  from assms obtain rows where "df = [] @ rows"
    and "list_all2 (\<lambda>b row. training_row db b = Inr row) (filter eligible (bids db)) rows"
    unfolding prepare_training_data_def by (blast dest: prepare_loop_all2)
  then have "list_all2 (\<lambda>b row. risk_of_row row = Inr (bid_risk_label db b))
      (filter eligible (bids db)) df"
    by (auto elim!: list_all2_mono simp: risk_of_training_row)
  from risk_loop_all2 [OF this, of "[]"] show ?thesis
    by (simp add: calculate_risk_scores_def)
qed

lemma eligible_sample_bid: "eligible sample_bid"
  by (simp add: eligible_def sample_bid_def)

lemma risky_row_label:
  "calculate_risk_scores [risky_row] = Inr [2026619832316723 / 2251799813685248]"
proof -
  have "risk_of_row risky_row = Inr (risk_label_spec 2000000 10 (dbl (9 / 10)) 3)"
    unfolding risky_row_def
    by (rule risk_of_row_num [where va = "PyFloat 2000000" and vb = "PyFloat 10"
          and vc = "PyFloat (dbl (9 / 10))" and vd = "PyInt 3"]) simp_all
  moreover have "risk_label_spec 2000000 10 (dbl (9 / 10)) 3
      = 2026619832316723 / 2251799813685248"
    by (simp add: risk_label_spec_sum dbl_7_lt_9 risk_sum_all)
  ultimately show ?thesis
    by (simp add: calculate_risk_scores_def)
qed

text \<open>
  Claim C2. For every training row the label computed by \<open>_calculate_risk_scores\<close> is the
  clamp to the unit interval of 0 plus 0.3 if the bid value exceeds 1,000,000, plus 0.2 if
  the relationship score is below 30, plus 0.2 if the complexity score exceeds 0.7, plus
  0.2 if fewer than 7 days remain; no row raises. For the row (5000, 80, 0.1, 60) the
  label is exactly 0.
\<close>

theorem risk_label_rule:
  "(prepare_training_data db = Inr df \<longrightarrow>
      calculate_risk_scores df = Inr (map (bid_risk_label db) (filter eligible (bids db))))
   \<and> calculate_risk_scores
       [[(''bid_value'', PyFloat 5000), (''customer_relationship_score'', PyFloat 80),
         (''complexity_score'', PyFloat (dbl (1 / 10))), (''days_until_due'', PyInt 60)]]
     = Inr [0]"
proof (intro conjI impI)
  assume "prepare_training_data db = Inr df"
  then show "calculate_risk_scores df
     = Inr (map (bid_risk_label db) (filter eligible (bids db)))"
    by (rule risk_scores_of_training_data)
next
  let ?row = "[(''bid_value'', PyFloat 5000), (''customer_relationship_score'', PyFloat 80),
         (''complexity_score'', PyFloat (dbl (1 / 10))), (''days_until_due'', PyInt 60)]"
  have "risk_of_row ?row = Inr (risk_label_spec 5000 80 (dbl (1 / 10)) 60)"
    by (rule risk_of_row_num [where va = "PyFloat 5000" and vb = "PyFloat 80"
          and vc = "PyFloat (dbl (1 / 10))" and vd = "PyInt 60"]) simp_all
  moreover have "risk_label_spec 5000 80 (dbl (1 / 10)) 60 = 0"
    by (simp add: risk_label_spec_sum dbl_1_lt_7 risk_sum_none)
  ultimately show "calculate_risk_scores [?row] = Inr [0]"
    by (simp add: calculate_risk_scores_def)
qed

text \<open>
  Witness for C2: the training table of the database with one won and one lost bid exists,
  and its two labels are those of the rule.
\<close>

theorem risk_label_rule_witness:
  "prepare_training_data small_database = Inr (projr (prepare_training_data small_database))
   \<and> calculate_risk_scores (projr (prepare_training_data small_database))
       = Inr [bid_risk_label small_database sample_bid,
              bid_risk_label small_database (sample_bid\<lparr>bid_id := ''b-2'', status := ''lost''\<rparr>)]"
proof -
  have a: "prepare_training_data small_database
      = Inr (projr (prepare_training_data small_database))"
    by (rule prepare_training_data_total)
      (simp add: small_database_def eligible_def sample_bid_def)
  from risk_label_rule [of small_database "projr (prepare_training_data small_database)"] a
  show ?thesis
    by (simp add: small_database_def eligible_def sample_bid_def)
qed

text \<open>
  Claim C3, as stated: on the row (2,000,000, 10, 0.9, 3) the label is exactly 1.0. It is
  not: the four increments add up to less than one.
\<close>

theorem risky_row_not_one: "calculate_risk_scores [risky_row] \<noteq> Inr [1]"
  by (simp add: risky_row_label)

text \<open>
  Claim C3, amended: on that row the label is the float sum 0.3 + 0.2 + 0.2 + 0.2, which
  is the double 0.8999999999999999, one unit in the last place below the double 0.9 and
  below 1; the clamp leaves it unchanged.
\<close>

theorem risky_row_below_one:
  "calculate_risk_scores [risky_row] = Inr [2026619832316723 / 2251799813685248]
   \<and> (2026619832316723 / 2251799813685248 :: rat) < 1
   \<and> (2026619832316723 / 2251799813685248 :: rat) < dbl (9 / 10)"
  by (simp add: risky_row_label) code_simp

section \<open>Recommendations\<close>

lemma sample_list: "recommendations_list sample_prediction = Inr sample_recommendations"
  by (simp add: recommendations_list_def sample_prediction_def sample_recommendations_def
      try_bind_def py_getitem_def py_get_def py_lt_def py_gt_def dbl_2_lt_3 dbl_7_lt_8)

lemma sample_distinct: "distinct sample_recommendations \<and> length sample_recommendations = 9"
  by (simp add: sample_recommendations_def)

text \<open>
  Claim C6. On the prediction with win probability 0.2, risk score 0.8 and the features
  relationship score 20 and 5 days until due, \<open>get_recommendations\<close> returns a list of
  exactly 9 distinct strings: the four of the low-win block, the three of the high-risk
  block, the engagement string and the acceleration string. On any input, a returned list
  has no duplicates.
\<close>

theorem recommendations_sample:
  "(get_recommendations sample_prediction result \<longrightarrow>
      (\<exists>ys. result = Inr ys \<and> length ys = 9 \<and> distinct ys
            \<and> set ys = set sample_recommendations))
   \<and> (get_recommendations prediction (Inr zs) \<longrightarrow> distinct zs)"
proof (intro conjI impI)
  assume r: "get_recommendations sample_prediction result"
  then obtain ys where ys: "result = Inr ys" "distinct ys" "set ys = set sample_recommendations"
    by (cases result) (auto simp: get_recommendations_def sample_list list_of_set_def)
  have "length ys = card (set ys)"
    using ys(2) by (simp add: distinct_card)
  also have "\<dots> = length sample_recommendations"
    using sample_distinct ys(3) by (simp add: distinct_card)
  finally show "\<exists>ys. result = Inr ys \<and> length ys = 9 \<and> distinct ys
      \<and> set ys = set sample_recommendations"
    using ys sample_distinct by simp
next
  assume "get_recommendations prediction (Inr zs)"
  then show "distinct zs"
    by (auto simp: get_recommendations_def list_of_set_def split: sum.splits)
qed

text \<open>
  Witness for C6: the reversed list is a result for the sample prediction, and the theorem
  applies to it.
\<close>

theorem recommendations_sample_witness:
  "get_recommendations sample_prediction (Inr (rev sample_recommendations))
   \<and> length (rev sample_recommendations) = 9
   \<and> distinct (rev sample_recommendations)"
proof -
  have g: "get_recommendations sample_prediction (Inr (rev sample_recommendations))"
    using sample_distinct by (simp add: get_recommendations_def sample_list list_of_set_def)
  then show ?thesis
    using recommendations_sample [of "Inr (rev sample_recommendations)" sample_prediction
        "rev sample_recommendations"]
    by simp
qed

lemma empty_features_list:
  assumes "py_get prediction ''features'' (PyDict []) = PyDict []"
      and "recommendations_list prediction = Inr xs"
  shows "''Schedule customer engagement meetings'' \<in> set xs
       \<and> ''Accelerate review and approval process'' \<in> set xs"
  using assms
  by (auto simp: recommendations_list_def try_bind_def py_lt_def py_get_def Let_def
      split: sum.splits if_splits)

lemma default_list: "recommendations_list default_dict = Inr default_recommendations"
  by (simp add: recommendations_list_def default_dict_def get_default_prediction_def
      default_recommendations_def
      try_bind_def py_getitem_def py_get_def py_lt_def py_gt_def dbl_5_lt_3 dbl_5_lt_6 dbl_7_lt_5)

text \<open>
  Claim C10. For every prediction whose features mapping is empty, a list returned by
  \<open>get_recommendations\<close> contains both the engagement string and the acceleration string:
  the missing features are read as 0, which is below 40 and below 14.
\<close>

theorem empty_features_recommendations:
  assumes "py_get prediction ''features'' (PyDict []) = PyDict []"
      and "get_recommendations prediction (Inr ys)"
  shows "''Schedule customer engagement meetings'' \<in> set ys
       \<and> ''Accelerate review and approval process'' \<in> set ys"
proof -
  from assms(2) obtain xs where xs: "recommendations_list prediction = Inr xs" "set ys = set xs"
    by (auto simp: get_recommendations_def list_of_set_def split: sum.splits)
  from empty_features_list [OF assms(1) xs(1)] xs(2) show ?thesis
    by simp
qed

text \<open>
  Witness for C10: the default prediction has an empty features mapping, and
  \<open>get_recommendations\<close> returns for it a list with both strings.
\<close>

theorem empty_features_recommendations_witness:
  "py_get default_dict ''features'' (PyDict []) = PyDict []
   \<and> get_recommendations default_dict (Inr default_recommendations)
   \<and> ''Schedule customer engagement meetings'' \<in> set default_recommendations
   \<and> ''Accelerate review and approval process'' \<in> set default_recommendations"
proof -
  have f: "py_get default_dict ''features'' (PyDict []) = PyDict []"
    by (simp add: default_dict_def get_default_prediction_def py_get_def)
  have g: "get_recommendations default_dict (Inr default_recommendations)"
    by (simp add: get_recommendations_def default_list list_of_set_def
        default_recommendations_def)
  from empty_features_recommendations [OF f g] f g show ?thesis
    by simp
qed

section \<open>Feature extraction\<close>

lemma dbl_half: "dbl (1 / 2) = 1 / 2" by code_simp

lemma dbl_zero: "dbl 0 = 0"
  by (simp add: dbl_def)

lemma filter_conj_length:
  "length (filter Q (filter P xs)) = length (filter (\<lambda>x. P x \<and> Q x) xs)"
  by (induction xs) auto

text \<open>
  Claim C8, as stated: for a bid whose customer has no prior bid in the database the
  feature \<open>historical_win_rate\<close> is exactly 0.5. It is not for a stored bid: the count is
  over all bids of the customer and includes the bid itself, so the stored first bid of a
  new customer, a draft, gets the rate 0.
\<close>

theorem first_bid_rate_counterexample:
  "draft_bid \<in> set (bids first_bid_database)
   \<and> prior_bids first_bid_database draft_bid = 0
   \<and> feature first_bid_database draft_bid ''historical_win_rate'' = Inr (PyFloat 0)"
  by (simp add: first_bid_database_def prior_bids_def feature_def extract_features_def
      try_bind_def py_getitem_def Let_def draft_bid_def sample_bid_def historical_win_rate_def
      customer_bids_def won_or_approved_def dbl_zero)

text \<open>
  Claim C8, amended: the feature is exactly 0.5 when the customer of the bid has no bid at
  all in the database, which a stored bid never meets; otherwise it is the number of the
  customer's won or approved bids divided by the number \<open>n\<close> of the customer's bids (a
  float division), both counts taken over all bids of the customer, the bid itself
  included.
\<close>

theorem historical_win_rate_feature:
  assumes "extract_features db b = Inr features"
  shows "(customer_bid_count db b = 0 \<longrightarrow>
            map_of features ''historical_win_rate'' = Some (PyFloat (1 / 2)))
       \<and> (0 < customer_bid_count db b \<longrightarrow>
            map_of features ''historical_win_rate''
              = Some (PyFloat (dbl (of_nat (customer_win_count db b)
                                    / of_nat (customer_bid_count db b)))))
       \<and> (b \<in> set (bids db) \<longrightarrow> 0 < customer_bid_count db b)"
proof -
  have n: "length (customer_bids db (bid_customer b)) = customer_bid_count db b"
    by (simp add: customer_bids_def customer_bid_count_def)
  have w: "length (filter won_or_approved (customer_bids db (bid_customer b)))
      = customer_win_count db b"
    by (simp add: customer_bids_def customer_win_count_def won_or_approved_def
        filter_conj_length)
  have "b \<in> set (bids db) \<Longrightarrow> 0 < customer_bid_count db b"
    by (auto simp: customer_bid_count_def length_greater_0_conv filter_empty_conv
        simp del: length_greater_0_conv)
  then show ?thesis
    using extract_features_cells(5) [OF assms]
    by (simp add: historical_win_rate_def Let_def n w dbl_half)
qed

text \<open>
  Witness for C8: a bid that is not stored, against the empty database, and a stored bid
  of a customer with three bids, two of them won or approved.
\<close>

theorem historical_win_rate_feature_witness:
  "extract_features empty_database sample_bid
     = Inr (projr (extract_features empty_database sample_bid))
   \<and> customer_bid_count empty_database sample_bid = 0
   \<and> map_of (projr (extract_features empty_database sample_bid)) ''historical_win_rate''
       = Some (PyFloat (1 / 2))
   \<and> sample_bid \<in> set (bids history_database)
   \<and> map_of (projr (extract_features history_database sample_bid)) ''historical_win_rate''
       = Some (PyFloat (dbl (2 / 3)))"
proof -
  have r: "requirements_count (requirements sample_bid) = Inr 0"
    by (simp add: sample_bid_def)
  have a: "customer_bid_count empty_database sample_bid = 0"
    by (simp add: customer_bid_count_def empty_database_def)
  have b: "customer_bid_count history_database sample_bid = 3"
    by (simp add: customer_bid_count_def history_database_def)
  have c: "customer_win_count history_database sample_bid = 2"
    by (simp add: customer_win_count_def history_database_def sample_bid_def)
  have d: "sample_bid \<in> set (bids history_database)"
    by (simp add: history_database_def)
  show ?thesis
    using historical_win_rate_feature [OF extract_features_total [OF r, of empty_database]]
      historical_win_rate_feature [OF extract_features_total [OF r, of history_database]]
      extract_features_total [OF r, of empty_database] a b c d
    by simp
qed

section \<open>Prediction\<close>

lemma index_of_None: "x \<notin> set xs \<Longrightarrow> index_of xs x = None"
  by (induction xs) auto

lemma transform_unseen:
  "Inl s \<notin> set cls \<Longrightarrow> transform (LabelEncoder (Some cls)) [PyStr s] = Inl ValueError"
  by (simp add: transform_def index_of_None)

lemma encode_values_length: "encode_values cls vs = Inr codes \<Longrightarrow> length codes = length vs"
  by (induction vs arbitrary: codes) (auto split: option.splits sum.splits)

lemma transform_length: "transform enc vs = Inr codes \<Longrightarrow> length codes = length vs"
  by (auto simp: transform_def encode_values_length split: option.splits)

lemma py_get_py_setitem:
  "py_get (py_setitem d k v) k' dflt = (if k' = k then v else py_get d k' dflt)"
  by (induction d k v rule: py_setitem.induct) (auto simp: py_get_def)

lemma predict_encode_loop_fails:
  assumes "column \<in> set columns" "map_of encs column = Some enc" "transform enc [v] = Inl e"
      and "df = [row]" "py_get row column PyNone = v"
  shows "\<exists>e'. predict_encode_loop columns df encs = Inl e'"
  using assms
proof (induction columns arbitrary: df row)
  case Nil
  then show ?case by simp
next
  case (Cons c columns)
  show ?case
  proof (cases "c = column")
    case True
    with Cons.prems show ?thesis
      by (simp add: df_column_def)
  next
    case False
    with Cons.prems have mem: "column \<in> set columns" by simp
    show ?thesis
    proof (cases "map_of encs c")
      case None
      with Cons.IH [OF mem Cons.prems(2,3,4,5)] show ?thesis by simp
    next
      case (Some enc')
      show ?thesis
      proof (cases "transform enc' [py_get row c PyNone]")
        case (Inl e')
        with Some Cons.prems(4) show ?thesis by (simp add: df_column_def)
      next
        case (Inr codes)
        then have "length codes = 1"
          using transform_length by fastforce
        then obtain code where code: "codes = [code]"
          by (cases codes) auto
        have "\<exists>e'. predict_encode_loop columns [py_setitem row c code] encs = Inl e'"
          by (rule Cons.IH [OF mem Cons.prems(2,3) refl])
            (simp add: py_get_py_setitem Cons.prems(5) \<open>c \<noteq> column\<close> [symmetric])
        with Some Inr code Cons.prems(4) show ?thesis
          by (simp add: df_column_def df_set_column_def)
      qed
    qed
  qed
qed

lemma object_column_str:
  assumes "map_of features column = Some (PyStr s)"
  shows "column \<in> set (object_columns [features])"
proof -
  have "column \<in> set (map fst features)"
    using assms by (metis map_of_eq_None_iff option.distinct(1) set_map)
  moreover have "object_dtype (df_column [features] column)"
    using assms by (simp add: object_dtype_def df_column_def py_get_def)
  ultimately show ?thesis
    by (simp add: object_columns_def df_columns_def)
qed

lemma predict_body_unseen:
  assumes "map_of features column = Some (PyStr s)"
      and "map_of (label_encoders self) column = Some (LabelEncoder (Some cls))"
      and "Inl s \<notin> set cls"
  shows "\<exists>e. predict_body now self features = Inl e"
proof -
  have "\<exists>e'. predict_encode_loop (object_columns [features]) [features] (label_encoders self)
      = Inl e'"
    by (rule predict_encode_loop_fails [OF object_column_str [OF assms(1)] assms(2)
          transform_unseen [OF assms(3)] refl])
      (simp add: py_get_def assms(1))
  then show ?thesis
    by (auto simp: predict_body_def try_bind_def)
qed

lemma default_prediction_values:
  "get_default_prediction =
     PyDict [(''win_probability'', PyFloat (1 / 2)),
             (''risk_score'', PyFloat (1 / 2)),
             (''confidence'', PyFloat (1 / 2)),
             (''features'', PyDict [])]"
  by (simp add: get_default_prediction_def dbl_half)

lemma predict_encode_loop_no_encoders: "predict_encode_loop columns df [] = Inr df"
  by (induction columns) auto

text \<open>
  Claim C1, as stated: for every bid, when a categorical value was not seen during the
  fit, \<open>predict_for_bid\<close> returns the default result without raising. It raises for a bid
  whose requirements are a JSON number: \<open>_extract_features\<close> runs outside both \<open>try\<close> blocks
  and raises before the unseen region is encoded.
\<close>

theorem unseen_region_raises_counterexample:
  "region number_bid = ''APAC''
   \<and> map_of (label_encoders europe_predictor) ''region''
       = Some (LabelEncoder (Some [Inl ''EU'']))
   \<and> fst (predict_for_bid sample_now europe_predictor empty_disk small_database number_bid)
       = Inl TypeError"
  by (simp add: predict_for_bid_def europe_predictor_def number_bid_def sample_bid_def
      extract_features_def try_bind_def Let_def)

text \<open>
  Claim C1, amended: \<open>predict_for_bid\<close> returns, without raising, exactly the default
  result (win probability 0.5, risk score 0.5, confidence 0.5, empty features) when no
  model is in memory and loading fails, for every bid; and, when a model is in memory or
  loads and the features of the bid are extracted, whenever anything in the encode, scale
  and predict block raises, in particular when a categorical feature has an encoder that
  has not seen its value.
\<close>

theorem default_on_failure:
  "(win_predictor self = None \<and> fst (load_models self d) \<noteq> None \<longrightarrow>
      predict_for_bid now self d db b
        = (Inr get_default_prediction, snd (load_models self d)))
   \<and> (fst (lazy_load self d) = None
        \<and> extract_features db b = Inr features
        \<and> predict_body now (snd (lazy_load self d)) features = Inl e \<longrightarrow>
      predict_for_bid now self d db b
        = (Inr get_default_prediction, snd (lazy_load self d)))
   \<and> (fst (lazy_load self d) = None
        \<and> extract_features db b = Inr features
        \<and> map_of features column = Some (PyStr s)
        \<and> map_of (label_encoders (snd (lazy_load self d))) column
            = Some (LabelEncoder (Some cls))
        \<and> Inl s \<notin> set cls \<longrightarrow>
      predict_for_bid now self d db b
        = (Inr get_default_prediction, snd (lazy_load self d)))
   \<and> get_default_prediction =
       PyDict [(''win_probability'', PyFloat (1 / 2)),
               (''risk_score'', PyFloat (1 / 2)),
               (''confidence'', PyFloat (1 / 2)),
               (''features'', PyDict [])]"
proof (intro conjI impI)
  assume "win_predictor self = None \<and> fst (load_models self d) \<noteq> None"
  then show "predict_for_bid now self d db b
      = (Inr get_default_prediction, snd (load_models self d))"
    by (auto simp: predict_for_bid_def Let_def split: option.splits)
next
  assume "fst (lazy_load self d) = None
        \<and> extract_features db b = Inr features
        \<and> predict_body now (snd (lazy_load self d)) features = Inl e"
  then show "predict_for_bid now self d db b
      = (Inr get_default_prediction, snd (lazy_load self d))"
    by (simp add: predict_for_bid_def lazy_load_def Let_def)
next
  assume a: "fst (lazy_load self d) = None
        \<and> extract_features db b = Inr features
        \<and> map_of features column = Some (PyStr s)
        \<and> map_of (label_encoders (snd (lazy_load self d))) column
            = Some (LabelEncoder (Some cls))
        \<and> Inl s \<notin> set cls"
  then obtain e' where
    "predict_body now (snd (lazy_load self d)) features = Inl e'"
    using predict_body_unseen by blast
  with a show "predict_for_bid now self d db b
      = (Inr get_default_prediction, snd (lazy_load self d))"
    by (simp add: predict_for_bid_def lazy_load_def Let_def)
next
  show "get_default_prediction =
       PyDict [(''win_probability'', PyFloat (1 / 2)),
               (''risk_score'', PyFloat (1 / 2)),
               (''confidence'', PyFloat (1 / 2)),
               (''features'', PyDict [])]"
    by (rule default_prediction_values)
qed

text \<open>
  Witness for C1: a fresh predictor with no artifact on disk, a predictor with an unfitted
  scaler, and a fitted predictor whose \<open>region\<close> encoder knows \<open>EU\<close> only, on a bid from
  \<open>APAC\<close>; each returns the four default values.
\<close>

theorem default_on_failure_witness:
  "fst (predict_for_bid sample_now init_predictor empty_disk small_database sample_bid)
     = Inr (PyDict [(''win_probability'', PyFloat (1 / 2)), (''risk_score'', PyFloat (1 / 2)),
                    (''confidence'', PyFloat (1 / 2)), (''features'', PyDict [])])
   \<and> fst (predict_for_bid sample_now unfitted_predictor empty_disk small_database sample_bid)
     = Inr (PyDict [(''win_probability'', PyFloat (1 / 2)), (''risk_score'', PyFloat (1 / 2)),
                    (''confidence'', PyFloat (1 / 2)), (''features'', PyDict [])])
   \<and> fst (predict_for_bid sample_now europe_predictor empty_disk small_database sample_bid)
     = Inr (PyDict [(''win_probability'', PyFloat (1 / 2)), (''risk_score'', PyFloat (1 / 2)),
                    (''confidence'', PyFloat (1 / 2)), (''features'', PyDict [])])"
proof -
  let ?features = "projr (extract_features small_database sample_bid)"
  have r: "requirements_count (requirements sample_bid) = Inr 0"
    by (simp add: sample_bid_def)
  have f: "extract_features small_database sample_bid = Inr ?features"
    by (rule extract_features_total [OF r])
  have a: "win_predictor init_predictor = None
      \<and> fst (load_models init_predictor empty_disk) \<noteq> None"
    by (simp add: init_predictor_def empty_disk_def load_models_def joblib_load_def)
  have b1: "lazy_load unfitted_predictor empty_disk = (None, unfitted_predictor)"
    by (simp add: lazy_load_def unfitted_predictor_def)
  have b2: "predict_body sample_now unfitted_predictor ?features = Inl NotFittedError"
    by (simp add: predict_body_def unfitted_predictor_def init_predictor_def
        predict_encode_loop_no_encoders try_bind_def scaler_transform_def)
  have c1: "lazy_load europe_predictor empty_disk = (None, europe_predictor)"
    by (simp add: lazy_load_def europe_predictor_def)
  have c2: "map_of ?features ''region'' = Some (PyStr ''APAC'')"
    using extract_features_cells(6) [OF f] by (simp add: sample_bid_def)
  have c3: "map_of (label_encoders europe_predictor) ''region''
      = Some (LabelEncoder (Some [Inl ''EU'']))"
    by (simp add: europe_predictor_def)
  have c4: "Inl ''APAC'' \<notin> set [Inl ''EU'' :: string + rat]"
    by simp
  show ?thesis
    using default_on_failure [of init_predictor empty_disk sample_now small_database sample_bid]
      default_on_failure [of unfitted_predictor empty_disk sample_now small_database
        sample_bid ?features NotFittedError]
      default_on_failure [of europe_predictor empty_disk sample_now small_database
        sample_bid ?features _ "''region''" "''APAC''" "[Inl ''EU'']"]
      a b1 b2 c1 c2 c3 c4 f
    by simp
qed

section \<open>Training\<close>

lemma load_models_stored:
  assumes "win_predictor_pkl d = Stored w" "risk_predictor_pkl d = Stored r"
      and "scaler_pkl d = Stored s" "label_encoders_pkl d = Stored l"
  shows "load_models self d
     = (None, self\<lparr>win_predictor := w, risk_predictor := r, scaler := s, label_encoders := l\<rparr>)"
  using assms by (simp add: load_models_def joblib_load_def)

lemma models_exist_stored:
  assumes "win_predictor_pkl d = Stored w" "risk_predictor_pkl d = Stored r"
      and "scaler_pkl d = Stored s" "label_encoders_pkl d = Stored l"
  shows "models_exist d"
  using assms by (simp add: models_exist_def file_exists_def)

lemma risk_loop_length:
  "risk_loop rows risks = Inr rs \<Longrightarrow> length rs = length risks + length rows"
  by (induction rows arbitrary: risks) (auto split: sum.splits)

lemma calculate_risk_scores_length:
  "calculate_risk_scores df = Inr rs \<Longrightarrow> length rs = length df"
  by (auto simp: calculate_risk_scores_def dest: risk_loop_length)

lemma n_test_positive: "0 < n \<Longrightarrow> 0 < n_test n"
  by (simp add: n_test_def)

lemma length_select: "length (select xs idx) \<le> length idx"
  by (simp add: select_def)

lemma train_test_split_length:
  assumes "train_test_split sk X y = Inr (X_train, X_test, y_train, y_test)"
  shows "length X_train < length X \<and> length y = length X"
proof -
  let ?n = "length X"
  from assms have y: "length y = ?n"
    by (auto simp: train_test_split_def Let_def split: if_splits)
  from assms have pos: "0 < ?n - n_test ?n"
    by (auto simp: train_test_split_def Let_def split: if_splits)
  from assms y pos have
    "X_train = select X (take (?n - n_test ?n) (drop (n_test ?n) (permutation sk ?n)))"
    by (auto simp: train_test_split_def Let_def split: if_splits)
  then have "length X_train \<le> ?n - n_test ?n"
    using length_select [of X "take (?n - n_test ?n) (drop (n_test ?n) (permutation sk ?n))"]
    by simp
  moreover have "0 < n_test ?n"
    using pos by (intro n_test_positive) auto
  ultimately show ?thesis
    using y pos by simp
qed

lemma regressor_fit_mismatch:
  "length X \<noteq> length y \<Longrightarrow> regressor_fit sk X y = Inl ValueError"
  by (simp add: regressor_fit_def)

lemma fit_risk_and_save_raises:
  assumes "length X_train < length df"
  shows "fst (fit_risk_and_save sk self d df X X_train) \<noteq> None
       \<and> snd (snd (fit_risk_and_save sk self d df X X_train)) = d"
proof (cases "calculate_risk_scores df")
  case (Inl e)
  then show ?thesis by (simp add: fit_risk_and_save_def)
next
  case (Inr rs)
  then have "length X_train \<noteq> length (map PyFloat rs)"
    using assms calculate_risk_scores_length by fastforce
  then have "regressor_fit sk X_train (map PyFloat rs) = Inl ValueError"
    by (rule regressor_fit_mismatch)
  with Inr show ?thesis by (simp add: fit_risk_and_save_def Let_def)
qed

lemma fit_win_and_evaluate_raises:
  assumes "length y = length df"
  shows "fst (fit_win_and_evaluate sk self d df X X_scaled y) \<noteq> None
       \<and> snd (snd (fit_win_and_evaluate sk self d df X X_scaled y)) = d"
proof (cases "train_test_split sk X_scaled y")
  case (Inl e)
  then show ?thesis by (simp add: fit_win_and_evaluate_def)
next
  case (Inr split)
  obtain X_train X_test y_train y_test where s: "split = (X_train, X_test, y_train, y_test)"
    by (cases split) auto
  with Inr have "length X_train < length df"
    using train_test_split_length assms by fastforce
  then show ?thesis
    using Inr s fit_risk_and_save_raises
    by (auto simp: fit_win_and_evaluate_def Let_def split: sum.splits)
qed

lemma encode_and_scale_raises:
  "fst (encode_and_scale sk self d df) \<noteq> None \<and> snd (snd (encode_and_scale sk self d df)) = d"
proof -
  have "length (df_column df ''target'') = length df"
    by (simp add: df_column_def)
  then show ?thesis
    using fit_win_and_evaluate_raises
    by (auto simp: encode_and_scale_def Let_def split: sum.splits)
qed

lemma train_models_training:
  assumes "retrain \<or> \<not> models_exist d" and "prepare_training_data db = Inr df"
      and "10 \<le> length df"
  shows "train_models sk retrain self d db = encode_and_scale sk self d df"
  using assms by (auto simp: train_models_def)

lemma train_models_disk: "snd (snd (train_models sk retrain self d db)) = d"
  using encode_and_scale_raises
  by (auto simp: train_models_def split: sum.splits)

lemma reaches_risk_fit_stages:
  assumes "reaches_risk_fit sk self db"
  obtains df X X_encoded encs X_scaled sc X_train X_test y_train y_test w y_pred where
    "prepare_training_data db = Inr df"
    "df_drop df [''target'', ''bid_id''] = Inr X"
    "encode_features X (label_encoders self) = (Inr X_encoded, encs)"
    "scaler_fit_transform sk X_encoded = (Inr X_scaled, sc)"
    "train_test_split sk X_scaled (df_column df ''target'')
       = Inr (X_train, X_test, y_train, y_test)"
    "regressor_fit sk X_train y_train = Inr w"
    "regressor_predict (Some w) X_test = Inr y_pred"
proof -
  from assms obtain df where 1: "prepare_training_data db = Inr df"
    by (auto simp: reaches_risk_fit_def split: sum.splits)
  with assms obtain X where 2: "df_drop df [''target'', ''bid_id''] = Inr X"
    by (auto simp: reaches_risk_fit_def split: sum.splits)
  with assms 1 obtain X_encoded where
    3: "fst (encode_features X (label_encoders self)) = Inr X_encoded"
    by (auto simp: reaches_risk_fit_def split: sum.splits)
  with assms 1 2 obtain X_scaled where
    4: "fst (scaler_fit_transform sk X_encoded) = Inr X_scaled"
    by (auto simp: reaches_risk_fit_def split: sum.splits)
  with assms 1 2 3 obtain split where
    5: "train_test_split sk X_scaled (df_column df ''target'') = Inr split"
    by (auto simp: reaches_risk_fit_def split: sum.splits)
  with assms 1 2 3 4 obtain w where
    6: "regressor_fit sk (fst split) (fst (snd (snd split))) = Inr w"
    by (auto simp: reaches_risk_fit_def split: sum.splits)
  with assms 1 2 3 4 5 obtain y_pred where
    7: "regressor_predict (Some w) (fst (snd split)) = Inr y_pred"
    by (cases "regressor_predict (Some w) (fst (snd split))")
       (auto simp: reaches_risk_fit_def)
  show thesis
  proof (rule that [OF 1 2 _ _ _ 6 7])
    show "encode_features X (label_encoders self)
        = (Inr X_encoded, snd (encode_features X (label_encoders self)))"
      using 3 by (simp add: prod_eq_iff)
    show "scaler_fit_transform sk X_encoded
        = (Inr X_scaled, snd (scaler_fit_transform sk X_encoded))"
      using 4 by (simp add: prod_eq_iff)
    show "train_test_split sk X_scaled (df_column df ''target'')
        = Inr (fst split, fst (snd split), fst (snd (snd split)), snd (snd (snd split)))"
      using 5 by simp
  qed
qed

text \<open>
  Claim C9, amended. When \<open>train_models\<close> trains on \<open>n \<ge> 10\<close> eligible rows (a retrain,
  or an artifact is missing), it raises before any artifact is saved; when every step up
  to the evaluation of the win regressor returns, the risk regressor is fitted on the
  training part of the split, which has fewer than \<open>n\<close> rows, against the risk labels of
  all \<open>n\<close> rows, that fit raises for the unequal sample counts, and this is the exception
  of \<open>train_models\<close>.
\<close>

theorem training_raises_before_saving:
  assumes "10 \<le> length (filter eligible (bids db))" and "retrain \<or> \<not> models_exist d"
  shows "fst (train_models sk retrain self d db) \<noteq> None
       \<and> snd (snd (train_models sk retrain self d db)) = d
       \<and> (prepare_training_data db = Inr df
          \<and> df_drop df [''target'', ''bid_id''] = Inr X
          \<and> encode_features X (label_encoders self) = (Inr X_encoded, encs)
          \<and> scaler_fit_transform sk X_encoded = (Inr X_scaled, sc)
          \<and> train_test_split sk X_scaled (df_column df ''target'')
              = Inr (X_train, X_test, y_train, y_test)
          \<and> regressor_fit sk X_train y_train = Inr w
          \<and> regressor_predict (Some w) X_test = Inr y_pred \<longrightarrow>
          length X_train < length (filter eligible (bids db))
          \<and> calculate_risk_scores df
              = Inr (map (bid_risk_label db) (filter eligible (bids db)))
          \<and> regressor_fit sk X_train
               (map PyFloat (map (bid_risk_label db) (filter eligible (bids db))))
              = Inl ValueError
          \<and> train_models sk retrain self d db
              = (Some ValueError,
                 self\<lparr>win_predictor := Some w, risk_predictor := Some UnfittedRegressor,
                      scaler := sc, label_encoders := encs\<rparr>,
                 d))"
proof (intro conjI impI)
  show "fst (train_models sk retrain self d db) \<noteq> None"
  proof (cases "prepare_training_data db")
    case (Inl e)
    with assms(2) show ?thesis by (auto simp: train_models_def)
  next
    case (Inr df')
    with assms(1) have "10 \<le> length df'"
      by (simp add: length_prepare_training_data)
    from train_models_training [OF assms(2) Inr this] encode_and_scale_raises
    show ?thesis by simp
  qed
  show "snd (snd (train_models sk retrain self d db)) = d"
    by (rule train_models_disk)
  assume st: "prepare_training_data db = Inr df
          \<and> df_drop df [''target'', ''bid_id''] = Inr X
          \<and> encode_features X (label_encoders self) = (Inr X_encoded, encs)
          \<and> scaler_fit_transform sk X_encoded = (Inr X_scaled, sc)
          \<and> train_test_split sk X_scaled (df_column df ''target'')
              = Inr (X_train, X_test, y_train, y_test)
          \<and> regressor_fit sk X_train y_train = Inr w
          \<and> regressor_predict (Some w) X_test = Inr y_pred"
  then have df: "prepare_training_data db = Inr df" by simp
  have len: "length df = length (filter eligible (bids db))"
    by (rule length_prepare_training_data [OF df])
  from st train_test_split_length [of sk X_scaled "df_column df ''target''"]
  show lt: "length X_train < length (filter eligible (bids db))"
    by (simp add: df_column_def len)
  show risk: "calculate_risk_scores df
      = Inr (map (bid_risk_label db) (filter eligible (bids db)))"
    by (rule risk_scores_of_training_data [OF df])
  show fit: "regressor_fit sk X_train
      (map PyFloat (map (bid_risk_label db) (filter eligible (bids db)))) = Inl ValueError"
    using lt by (intro regressor_fit_mismatch) simp
  have "train_models sk retrain self d db = encode_and_scale sk self d df"
    using assms(1) by (intro train_models_training [OF assms(2) df]) (simp add: len)
  also have "\<dots> = (Some ValueError,
                 self\<lparr>win_predictor := Some w, risk_predictor := Some UnfittedRegressor,
                      scaler := sc, label_encoders := encs\<rparr>,
                 d)"
    using st risk fit
    by (simp add: encode_and_scale_def fit_win_and_evaluate_def fit_risk_and_save_def Let_def)
  finally show "train_models sk retrain self d db
      = (Some ValueError,
         self\<lparr>win_predictor := Some w, risk_predictor := Some UnfittedRegressor,
              scaler := sc, label_encoders := encs\<rparr>,
         d)" .
qed

lemma big_database_reaches_risk_fit:
  "reaches_risk_fit working_sklearn init_predictor big_database"
  by code_simp

text \<open>
  Witness for C9: a retrain on ten won bids, with a library whose fits succeed and no
  artifact on disk, gets to the fit of the risk regressor, raises its \<open>ValueError\<close> and
  leaves the directory empty.
\<close>

theorem training_raises_before_saving_witness:
  "10 \<le> length (filter eligible (bids big_database))
   \<and> \<not> models_exist empty_disk
   \<and> reaches_risk_fit working_sklearn init_predictor big_database
   \<and> fst (train_models working_sklearn True init_predictor empty_disk big_database)
       = Some ValueError
   \<and> risk_predictor
       (fst (snd (train_models working_sklearn True init_predictor empty_disk big_database)))
       = Some UnfittedRegressor
   \<and> snd (snd (train_models working_sklearn True init_predictor empty_disk big_database))
       = empty_disk"
proof -
  have a: "10 \<le> length (filter eligible (bids big_database))"
    by (simp add: big_database_def eligible_sample_bid)
  have b: "\<not> models_exist empty_disk"
    by (simp add: models_exist_def empty_disk_def file_exists_def)
  from big_database_reaches_risk_fit
  obtain df X X_encoded encs X_scaled sc X_train X_test y_train y_test w y_pred where
    st: "prepare_training_data big_database = Inr df"
    "df_drop df [''target'', ''bid_id''] = Inr X"
    "encode_features X (label_encoders init_predictor) = (Inr X_encoded, encs)"
    "scaler_fit_transform working_sklearn X_encoded = (Inr X_scaled, sc)"
    "train_test_split working_sklearn X_scaled (df_column df ''target'')
       = Inr (X_train, X_test, y_train, y_test)"
    "regressor_fit working_sklearn X_train y_train = Inr w"
    "regressor_predict (Some w) X_test = Inr y_pred"
    by (rule reaches_risk_fit_stages)
  from training_raises_before_saving [OF a, of True empty_disk working_sklearn init_predictor
      df X X_encoded encs X_scaled sc X_train X_test y_train y_test w y_pred] st a b
    big_database_reaches_risk_fit
  show ?thesis
    by simp
qed

text \<open>
  Claim C9, as stated: for every bid set with \<open>n \<ge> 10\<close> eligible rows \<open>train_models\<close>
  calls the fit of the risk regressor, which raises. It does not when \<open>retrain\<close> is false
  and the four artifacts exist: nothing is fitted and the method returns.
\<close>

theorem training_skipped_counterexample:
  "10 \<le> length (filter eligible (bids big_database))
   \<and> fst (train_models sample_sklearn False init_predictor stored_disk big_database) = None"
  by (simp add: big_database_def eligible_sample_bid train_models_def models_exist_def
      file_exists_def stored_disk_def load_models_def joblib_load_def)

text \<open>
  Claim C4, as stated: with fewer than 10 eligible rows \<open>train_models\<close> returns without
  raising and changes neither the models in memory nor a file. It fails when \<open>retrain\<close> is
  false and the four artifacts exist: the models in memory are replaced by the loaded
  ones, and an artifact that cannot be loaded makes the method raise. It also raises on
  the training path when the features of an eligible bid cannot be extracted, which
  happens before the rows are counted.
\<close>

theorem few_rows_loads_counterexample:
  "length (filter eligible (bids empty_database)) < 10
   \<and> fst (snd (train_models sample_sklearn False init_predictor stored_disk empty_database))
       \<noteq> init_predictor
   \<and> fst (train_models sample_sklearn False init_predictor corrupt_disk empty_database)
       \<noteq> None
   \<and> length (filter eligible (bids number_database)) < 10
   \<and> fst (train_models sample_sklearn True init_predictor empty_disk number_database)
       = Some TypeError"
proof -
  have "win_predictor
      (fst (snd (train_models sample_sklearn False init_predictor stored_disk empty_database)))
      = Some UnfittedRegressor"
    by (simp add: train_models_def models_exist_def file_exists_def stored_disk_def
        load_models_def joblib_load_def)
  moreover have "win_predictor init_predictor = None"
    by (simp add: init_predictor_def)
  ultimately have
    "fst (snd (train_models sample_sklearn False init_predictor stored_disk empty_database))
       \<noteq> init_predictor"
    by auto
  moreover have
    "fst (train_models sample_sklearn False init_predictor corrupt_disk empty_database) \<noteq> None"
    by (simp add: train_models_def models_exist_def file_exists_def stored_disk_def
        corrupt_disk_def load_models_def joblib_load_def)
  moreover have
    "fst (train_models sample_sklearn True init_predictor empty_disk number_database)
       = Some TypeError"
    by (simp add: train_models_def prepare_training_data_def number_database_def
        number_bid_def sample_bid_def eligible_def training_row_def extract_features_def
        try_bind_def Let_def)
  ultimately show ?thesis
    by (simp add: empty_database_def number_database_def)
qed

text \<open>
  Claim C4, amended: with fewer than 10 eligible rows, when \<open>retrain\<close> is true or an
  artifact file is missing, and the features of every eligible bid are extracted,
  \<open>train_models\<close> returns without raising and leaves the predictor and every file as they
  are; when \<open>retrain\<close> is false and the four files exist, it does what \<open>load_models\<close> does;
  in every case no file is touched.
\<close>

theorem few_rows_no_training:
  assumes "length (filter eligible (bids db)) < 10"
  shows "((retrain \<or> \<not> models_exist d) \<and> prepare_training_data db = Inr df \<longrightarrow>
            train_models sk retrain self d db = (None, self, d))
       \<and> (\<not> retrain \<and> models_exist d \<longrightarrow>
            train_models sk retrain self d db
              = (fst (load_models self d), snd (load_models self d), d))
       \<and> snd (snd (train_models sk retrain self d db)) = d"
proof (intro conjI impI)
  assume a: "(retrain \<or> \<not> models_exist d) \<and> prepare_training_data db = Inr df"
  then have "length df < 10"
    using assms length_prepare_training_data [of db df] by simp
  with a show "train_models sk retrain self d db = (None, self, d)"
    by (auto simp: train_models_def)
next
  assume "\<not> retrain \<and> models_exist d"
  then show "train_models sk retrain self d db
      = (fst (load_models self d), snd (load_models self d), d)"
    by (simp add: train_models_def)
next
  show "snd (snd (train_models sk retrain self d db)) = d"
    by (rule train_models_disk)
qed

text \<open>
  Witness for C4: the empty database, with a retrain, and with the artifacts on disk.
\<close>

theorem few_rows_no_training_witness:
  "length (filter eligible (bids empty_database)) < 10
   \<and> prepare_training_data empty_database = Inr []
   \<and> train_models sample_sklearn True init_predictor stored_disk empty_database
       = (None, init_predictor, stored_disk)
   \<and> models_exist stored_disk
   \<and> snd (snd (train_models sample_sklearn False init_predictor stored_disk empty_database))
       = stored_disk"
proof -
  have a: "length (filter eligible (bids empty_database)) < 10"
    by (simp add: empty_database_def)
  have b: "models_exist stored_disk"
    by (simp add: models_exist_def file_exists_def stored_disk_def)
  have c: "prepare_training_data empty_database = Inr []"
    by (simp add: prepare_training_data_def empty_database_def)
  from few_rows_no_training [OF a, of True stored_disk "[]" sample_sklearn init_predictor]
    few_rows_no_training [OF a, of False stored_disk "[]" sample_sklearn init_predictor]
    a b c show ?thesis
    by simp
qed

text \<open>
  Claim C5. When the four artifact files exist and load, \<open>train_models\<close> with
  \<open>retrain=False\<close> only loads them: the result does not depend on the database or on the
  library, no file changes, and a second call yields the same predictor.
\<close>

theorem load_only_idempotent:
  assumes "win_predictor_pkl d = Stored w" "risk_predictor_pkl d = Stored r"
      and "scaler_pkl d = Stored s" "label_encoders_pkl d = Stored l"
  shows "train_models sk False self d db
           = (None,
              self\<lparr>win_predictor := w, risk_predictor := r, scaler := s, label_encoders := l\<rparr>,
              d)
       \<and> train_models sk' False
           (self\<lparr>win_predictor := w, risk_predictor := r, scaler := s, label_encoders := l\<rparr>)
           d db'
           = (None,
              self\<lparr>win_predictor := w, risk_predictor := r, scaler := s, label_encoders := l\<rparr>,
              d)"
  using models_exist_stored [OF assms] load_models_stored [OF assms]
  by (simp add: train_models_def)

text \<open>
  Witness for C5: a fresh predictor against the directory with the four artifacts, twice.
\<close>

theorem load_only_idempotent_witness:
  "train_models sample_sklearn False init_predictor stored_disk big_database
     = (None,
        \<lparr>win_predictor = Some UnfittedRegressor, risk_predictor = Some UnfittedRegressor,
         scaler = UnfittedScaler, label_encoders = []\<rparr>,
        stored_disk)
   \<and> train_models sample_sklearn False
        \<lparr>win_predictor = Some UnfittedRegressor, risk_predictor = Some UnfittedRegressor,
         scaler = UnfittedScaler, label_encoders = []\<rparr> stored_disk empty_database
     = (None,
        \<lparr>win_predictor = Some UnfittedRegressor, risk_predictor = Some UnfittedRegressor,
         scaler = UnfittedScaler, label_encoders = []\<rparr>,
        stored_disk)"
  using load_only_idempotent [of stored_disk "Some UnfittedRegressor" "Some UnfittedRegressor"
      UnfittedScaler "[]" sample_sklearn init_predictor big_database sample_sklearn
      empty_database]
  by (simp add: stored_disk_def init_predictor_def)

section \<open>Encoding\<close>

lemma encode_values_Cons:
  assumes "encode_values cls (v # vs) = Inr codes"
  obtains j rest where "encode_values cls [v] = Inr [PyInt (int j)]"
    and "encode_values cls vs = Inr rest" and "codes = PyInt (int j) # rest"
  using assms by (auto split: option.splits sum.splits)

lemma encode_values_nth:
  "encode_values cls vs = Inr codes \<Longrightarrow> i < length vs \<Longrightarrow>
     encode_values cls [vs ! i] = Inr [codes ! i] \<and> (\<exists>k. codes ! i = PyInt (int k))"
proof (induction vs arbitrary: codes i)
  case Nil
  then show ?case by simp
next
  case (Cons v vs)
  from Cons.prems(1) obtain j rest where
    hd: "encode_values cls [v] = Inr [PyInt (int j)]" and
    tl: "encode_values cls vs = Inr rest" and codes: "codes = PyInt (int j) # rest"
    by (rule encode_values_Cons)
  show ?case
  proof (cases i)
    case 0
    with hd codes show ?thesis
      by (simp del: encode_values.simps)
  next
    case (Suc n)
    with Cons.prems(2) have "n < length vs" by simp
    from Cons.IH [OF tl this] Suc codes show ?thesis
      by (simp del: encode_values.simps)
  qed
qed

lemma fit_transform_classes:
  "fit_transform vs = Inr (enc, codes) \<Longrightarrow>
     \<exists>cls. enc = LabelEncoder (Some cls) \<and> encode_values cls vs = Inr codes"
  by (auto simp: fit_transform_def split: sum.splits)

lemma map_of_dict_set:
  "map_of (dict_set d k v) k' = (if k' = k then Some v else map_of d k')"
  by (induction d k v rule: dict_set.induct) auto

lemma length_df_set_column:
  "length vs = length X \<Longrightarrow> length (df_set_column X c vs) = length X"
  by (simp add: df_set_column_def)

lemma df_column_df_set_column:
  assumes "length vs = length X"
  shows "df_column (df_set_column X c vs) c' = (if c' = c then vs else df_column X c')"
proof -
  have "map (\<lambda>p. py_get (py_setitem (fst p) c (snd p)) c' PyNone) (zip X vs)
      = (if c' = c then map snd (zip X vs) else map (\<lambda>row. py_get row c' PyNone) (map fst (zip X vs)))"
    by (simp add: py_get_py_setitem comp_def)
  then show ?thesis
    using assms by (simp add: df_column_def df_set_column_def case_prod_unfold comp_def)
qed

lemma length_fillna_column: "length (fillna (df_column X c) d) = length X"
  by (simp add: fillna_def df_column_def)

lemma encode_loop_preserves:
  "encode_loop columns X encs = (Inr X', encs') \<Longrightarrow> c \<notin> set columns \<Longrightarrow>
     map_of encs' c = map_of encs c \<and> df_column X' c = df_column X c \<and> length X' = length X"
proof (induction columns arbitrary: X encs)
  case Nil
  then show ?case by simp
next
  case (Cons h columns)
  from Cons.prems(2) have hc: "c \<noteq> h" and rest: "c \<notin> set columns" by auto
  let ?vs = "fillna (df_column X h) (PyStr ''unknown'')"
  show ?case
  proof (cases "map_of encs h")
    case None
    with Cons.prems(1) obtain enc codes where
      ft: "fit_transform ?vs = Inr (enc, codes)" and
      loop: "encode_loop columns (df_set_column X h codes)
               (dict_set (dict_set encs h (LabelEncoder None)) h enc) = (Inr X', encs')"
      by (auto simp: Let_def split: sum.splits)
    from ft have len: "length codes = length X"
      using fit_transform_classes encode_values_length length_fillna_column by metis
    from Cons.IH [OF loop rest] len hc show ?thesis
      by (simp add: map_of_dict_set df_column_df_set_column length_df_set_column)
  next
    case (Some enc)
    with Cons.prems(1) obtain codes where
      tr: "transform enc ?vs = Inr codes" and
      loop: "encode_loop columns (df_set_column X h codes) encs = (Inr X', encs')"
      by (auto split: sum.splits)
    from tr have len: "length codes = length X"
      using transform_length length_fillna_column by metis
    from Cons.IH [OF loop rest] len hc show ?thesis
      by (simp add: df_column_df_set_column length_df_set_column)
  qed
qed

lemma encode_loop_fit:
  "encode_loop columns X encs = (Inr X', encs') \<Longrightarrow> c \<in> set columns \<Longrightarrow>
   distinct columns \<Longrightarrow> map_of encs c = None \<Longrightarrow> i < length X \<Longrightarrow>
     \<exists>cls k. map_of encs' c = Some (LabelEncoder (Some cls))
       \<and> df_column X' c ! i = PyInt (int k)
       \<and> encode_values cls [fillna (df_column X c) (PyStr ''unknown'') ! i] = Inr [PyInt (int k)]"
proof (induction columns arbitrary: X encs)
  case Nil
  then show ?case by simp
next
  case (Cons h columns)
  let ?vs = "fillna (df_column X h) (PyStr ''unknown'')"
  show ?case
  proof (cases "h = c")
    case True
    with Cons.prems(1,4) obtain enc codes where
      ft: "fit_transform ?vs = Inr (enc, codes)" and
      loop: "encode_loop columns (df_set_column X h codes)
               (dict_set (dict_set encs h (LabelEncoder None)) h enc) = (Inr X', encs')"
      by (auto simp: Let_def split: sum.splits)
    from ft obtain cls where cls: "enc = LabelEncoder (Some cls)"
      "encode_values cls ?vs = Inr codes"
      using fit_transform_classes by blast
    then have len: "length codes = length X"
      using encode_values_length length_fillna_column by metis
    from Cons.prems(3) True have "c \<notin> set columns" by simp
    from encode_loop_preserves [OF loop this] len True
    have keep: "map_of encs' c = Some enc" "df_column X' c = codes"
      by (simp_all add: map_of_dict_set df_column_df_set_column)
    from Cons.prems(5) have "i < length ?vs"
      by (simp add: length_fillna_column)
    from encode_values_nth [OF cls(2) this] obtain k where
      "encode_values cls [?vs ! i] = Inr [codes ! i]" "codes ! i = PyInt (int k)"
      by blast
    with keep cls(1) True show ?thesis
      by auto
  next
    case False
    with Cons.prems(2,3) have mem: "c \<in> set columns" and dist: "distinct columns"
      by auto
    show ?thesis
    proof (cases "map_of encs h")
      case None
      with Cons.prems(1) obtain enc codes where
        ft: "fit_transform ?vs = Inr (enc, codes)" and
        loop: "encode_loop columns (df_set_column X h codes)
                 (dict_set (dict_set encs h (LabelEncoder None)) h enc) = (Inr X', encs')"
        by (auto simp: Let_def split: sum.splits)
      from ft have len: "length codes = length X"
        using fit_transform_classes encode_values_length length_fillna_column by metis
      have "map_of (dict_set (dict_set encs h (LabelEncoder None)) h enc) c = None"
        using False Cons.prems(4) by (simp add: map_of_dict_set)
      from Cons.IH [OF loop mem dist this] Cons.prems(5) len False show ?thesis
        by (simp add: df_column_df_set_column length_df_set_column)
    next
      case (Some enc)
      with Cons.prems(1) obtain codes where
        tr: "transform enc ?vs = Inr codes" and
        loop: "encode_loop columns (df_set_column X h codes) encs = (Inr X', encs')"
        by (auto split: sum.splits)
      from tr have len: "length codes = length X"
        using transform_length length_fillna_column by metis
      from Cons.IH [OF loop mem dist Cons.prems(4)] Cons.prems(5) len False show ?thesis
        by (simp add: df_column_df_set_column length_df_set_column)
    qed
  qed
qed

text \<open>
  Claim C7. When \<open>_encode_features\<close> fits the encoder of a categorical column (a column of
  dtype object that has no encoder yet), every value of that column, as passed to the fit,
  is encoded by \<open>transform\<close> with the stored encoder to the same integer code that the fit
  put into the encoded table; \<open>transform\<close> does not raise on it.
\<close>

theorem fit_then_transform_same_code:
  assumes "encode_features X encs = (Inr X_encoded, encs')"
      and "column \<in> set (object_columns X)" and "map_of encs column = None"
      and "distinct (df_columns X)" and "i < length X"
  shows "\<exists>cls code. map_of encs' column = Some (LabelEncoder (Some cls))
       \<and> df_column X_encoded column ! i = PyInt code
       \<and> transform (LabelEncoder (Some cls))
            [fillna (df_column X column) (PyStr ''unknown'') ! i] = Inr [PyInt code]"
proof -
  have "distinct (object_columns X)"
    using assms(4) by (simp add: object_columns_def)
  from encode_loop_fit [OF assms(1) [unfolded encode_features_def] assms(2) this assms(3,5)]
  show ?thesis
    by (auto simp: transform_def)
qed

lemma region_table_encoded:
  "encode_features region_table []
     = (Inr [[(''region'', PyInt 1)], [(''region'', PyInt 0)]],
        [(''region'', LabelEncoder (Some [Inl ''APAC'', Inl ''EU'']))])"
  by code_simp

text \<open>
  Witness for C7: the column \<open>region\<close> with the values \<open>EU\<close> and \<open>APAC\<close> is fitted to the
  classes \<open>APAC\<close>, \<open>EU\<close>; the first row gets the code 1, and so does \<open>EU\<close> at inference.
\<close>

theorem fit_then_transform_same_code_witness:
  "encode_features region_table []
     = (Inr [[(''region'', PyInt 1)], [(''region'', PyInt 0)]],
        [(''region'', LabelEncoder (Some [Inl ''APAC'', Inl ''EU'']))])
   \<and> transform (LabelEncoder (Some [Inl ''APAC'', Inl ''EU''])) [PyStr ''EU''] = Inr [PyInt 1]"
proof -
  have c: "''region'' \<in> set (object_columns region_table)"
    by (simp add: object_columns_def df_columns_def region_table_def object_dtype_def
        df_column_def py_get_def)
  have d: "distinct (df_columns region_table)"
    by (simp add: df_columns_def region_table_def)
  have i: "0 < length region_table"
    by (simp add: region_table_def)
  from fit_then_transform_same_code [OF region_table_encoded c _ d i]
  have "transform (LabelEncoder (Some [Inl ''APAC'', Inl ''EU''])) [PyStr ''EU'']
      = Inr [PyInt 1]"
    by (simp add: region_table_def df_column_def py_get_def fillna_def)
  with region_table_encoded show ?thesis
    by simp
qed

end
